theory Spec2Isabelle
  imports Main "HOL-Library.Sublist"
begin

section \<open>Data model of \<open>ChatInterface.tsx\<close>\<close>

text \<open>
  The component \<open>ChatInterface\<close> keeps its state in React state cells and talks to a
  remote service through the \<open>SensayAPI\<close> client. The model below is a shallow
  embedding of its event handlers: the state cells are the fields of a record, each
  \<open>setX\<close> call is a record update applied in the order in which the handler issues it,
  every remote call is a step of an arbitrary deterministic remote service, and every
  \<open>throw\<close> is the \<open>Inl\<close> branch of a sum.
\<close>

subsection \<open>Dynamically typed values\<close>

text \<open>
  A thrown value is inspected dynamically by the \<open>catch\<close> block of \<open>handleSubmit\<close>
  (\<open>errorObj\<close> has type \<open>any\<close>), so payloads are JavaScript values. Numbers are the
  integers (an HTTP status is one); an array behaves as an object without the probed
  properties and is not a separate constructor.
\<close>

datatype jsval =
    JUndefined
  | JNull
  | JBool bool
  | JNum int
  | JStr string
  | JObj "(string \<times> jsval) list"

text \<open>JavaScript truthiness, as used by \<open>if (v)\<close>, \<open>!v\<close> and \<open>&&\<close>.\<close>

fun truthy :: "jsval \<Rightarrow> bool" where
  "truthy JUndefined = False"
| "truthy JNull = False"
| "truthy (JBool b) = b"
| "truthy (JNum n) = (n \<noteq> 0)"
| "truthy (JStr s) = (s \<noteq> [])"
| "truthy (JObj kvs) = True"

text \<open>
  Property read \<open>v.k\<close> and \<open>v?.k\<close>. On an object it is the stored value or
  \<open>undefined\<close>; on a string, number or boolean none of the names probed by the
  handler (\<open>error\<close>, \<open>message\<close>, \<open>response\<close>, \<open>data\<close>, \<open>status\<close>) exists, so the
  result is \<open>undefined\<close>; on \<open>undefined\<close> and \<open>null\<close> the optional chain \<open>?.\<close>
  gives \<open>undefined\<close>. The handler uses the plain \<open>.\<close> only on values it has already
  found truthy, so the \<open>TypeError\<close> of a read on \<open>undefined\<close> cannot arise there.
\<close>

fun get_prop :: "jsval \<Rightarrow> string \<Rightarrow> jsval" where
  "get_prop (JObj kvs) k = (case map_of kvs k of Some v \<Rightarrow> v | None \<Rightarrow> JUndefined)"
| "get_prop v k = JUndefined"

text \<open>Decimal digits of a natural number, for the string conversion of numbers.\<close>

fun digits :: "nat \<Rightarrow> string" where
  "digits n =
     (if n < 10 then [char_of (48 + n)]
      else digits (n div 10) @ [char_of (48 + n mod 10)])"

declare digits.simps [simp del]

text \<open>
  The string conversion of a template literal \<open>`${v}`\<close>, for the values of the model
  (a plain object converts to \<open>[object Object]\<close>).
\<close>

fun js_toString :: "jsval \<Rightarrow> string" where
  "js_toString JUndefined = ''undefined''"
| "js_toString JNull = ''null''"
| "js_toString (JBool b) = (if b then ''true'' else ''false'')"
| "js_toString (JNum n) = (if n < 0 then ''-'' @ digits (nat (- n)) else digits (nat n))"
| "js_toString (JStr s) = s"
| "js_toString (JObj kvs) = ''[object Object]''"

text \<open>
  What a remote call can throw: an instance of \<open>Error\<close> (only its \<open>message\<close> is
  read), or any other value.
\<close>

datatype thrown = ErrorInst string | Thrown jsval

subsection \<open>Constants and built-ins that the component imports\<close>

text \<open>
  \<open>SAMPLE_USER_ID\<close>, \<open>SAMPLE_REPLICA_SLUG\<close> and \<open>API_VERSION\<close> come from
  \<open>@/constants/auth\<close>, and \<open>JSON.stringify\<close> is a built-in of the language. They are
  parameters of the model.
\<close>

record env =
  SAMPLE_USER_ID :: string
  SAMPLE_REPLICA_SLUG :: string
  API_VERSION :: string
  JSON_stringify :: "jsval \<Rightarrow> string"

subsection \<open>Error-message extraction (the \<open>catch\<close> block of \<open>handleSubmit\<close>)\<close>

definition default_errorMessage :: string where
  "default_errorMessage = ''Failed to send message. Please check your API key and try again.''"

text \<open>The branch \<open>else if (errorObj.response?.data)\<close>, with \<open>respData\<close> its value.\<close>

definition extract_respData :: "env \<Rightarrow> jsval \<Rightarrow> jsval \<Rightarrow> jsval" where
  "extract_respData E errorObj respData =
     (if truthy (get_prop (get_prop respData ''error'') ''message'')
        then get_prop (get_prop respData ''error'') ''message''
      else if truthy (get_prop respData ''message'')
        then get_prop respData ''message''
      else (case respData of
              JStr s \<Rightarrow> JStr s
            | _ \<Rightarrow> JStr (''API Error ('' @ js_toString (get_prop (get_prop errorObj ''response'') ''status'')
                          @ ''): '' @ JSON_stringify E respData)))"

text \<open>The branch \<open>typeof err === 'object' && err !== null\<close>, with \<open>errorObj = err\<close>.\<close>

definition extract_errorObj :: "env \<Rightarrow> jsval \<Rightarrow> jsval" where
  "extract_errorObj E errorObj =
     (if truthy (get_prop (get_prop errorObj ''error'') ''message'')
        then get_prop (get_prop errorObj ''error'') ''message''
      else if truthy (get_prop errorObj ''error'')
        then (case get_prop errorObj ''error'' of
                JStr s \<Rightarrow> JStr s
              | e \<Rightarrow> JStr (JSON_stringify E e))
      else if truthy (get_prop errorObj ''message'')
        then get_prop errorObj ''message''
      else if truthy (get_prop (get_prop errorObj ''response'') ''data'')
        then extract_respData E errorObj (get_prop (get_prop errorObj ''response'') ''data'')
      else JStr default_errorMessage)"

text \<open>
  The value handed to \<open>setError\<close>: the default, overwritten by the message of an
  \<open>Error\<close> instance or by what the object probe finds.
\<close>

definition extractErrorMessage :: "env \<Rightarrow> thrown \<Rightarrow> jsval" where
  "extractErrorMessage E err =
     (case err of
        ErrorInst m \<Rightarrow> JStr m
      | Thrown (JObj kvs) \<Rightarrow> extract_errorObj E (JObj kvs)
      | Thrown _ \<Rightarrow> JStr default_errorMessage)"

subsection \<open>Transcript and component state\<close>

datatype Role = User | Assistant | System

record ChatMessage =
  role :: Role
  content :: string
  name :: "string option"

text \<open>
  The state cells of the component (\<open>useState\<close>). \<open>error\<close> holds \<open>null\<close> or the
  value shown in the error banner; \<open>replicaUuid\<close> holds \<open>null\<close> (\<open>None\<close>) or the
  cached agent identifier.
\<close>

record ComponentState =
  messages :: "ChatMessage list"
  inputValue :: string
  isLoading :: bool
  error :: jsval
  localApiKey :: string
  showConfig :: bool
  replicaUuid :: "string option"

text \<open>Truthiness of a value of type \<open>string | null | undefined\<close>.\<close>

fun truthy_str :: "string option \<Rightarrow> bool" where
  "truthy_str None = False"
| "truthy_str (Some s) = (s \<noteq> [])"

text \<open>The initial state of the cells, for the prop \<open>apiKey\<close>.\<close>

definition initialState :: "string option \<Rightarrow> ComponentState" where
  "initialState apiKey =
     \<lparr> messages = [], inputValue = [], isLoading = False, error = JNull,
       localApiKey = (case apiKey of Some k \<Rightarrow> k | None \<Rightarrow> []),
       showConfig = (\<not> truthy_str apiKey),
       replicaUuid = None \<rparr>"

subsection \<open>The remote service\<close>

text \<open>The \<open>HEADERS\<close> a client is constructed with.\<close>

record headers =
  X_ORGANIZATION_SECRET :: string
  X_USER_ID :: "string option"

text \<open>Request bodies; a field whose name is taken already carries a prefix.\<close>

record user_body =
  user_id :: string
  user_email :: string
  user_name :: string

record llm_config =
  model :: string
  memoryMode :: string
  systemMessage :: string

record replica_body =
  replica_name :: string
  shortDescription :: string
  greeting :: string
  replica_slug :: string
  ownerID :: string
  llm :: llm_config

record chat_body =
  chat_content :: string
  source :: string
  skip_chat_history :: bool

text \<open>Responses: an agent record, the agent listing, a completion.\<close>

record replica =
  slug :: string
  uuid :: string

record replicas_response =
  items :: "replica list option"

record completion =
  completion_content :: string

datatype request =
    GetV1Users headers string
  | PostV1Users headers string user_body
  | GetV1Replicas headers
  | PostV1Replicas headers string replica_body
  | PostV1ReplicasChatCompletions headers string string chat_body

text \<open>
  The remote service is any deterministic machine over a state \<open>'r\<close>: each endpoint
  maps the client's headers, its arguments and the service's state to a result (a
  thrown value or a response) and the next state.
\<close>

record 'r SensayAPI =
  getV1Users :: "headers \<Rightarrow> string \<Rightarrow> 'r \<Rightarrow> (thrown + unit) \<times> 'r"
  postV1Users :: "headers \<Rightarrow> string \<Rightarrow> user_body \<Rightarrow> 'r \<Rightarrow> (thrown + unit) \<times> 'r"
  getV1Replicas :: "headers \<Rightarrow> 'r \<Rightarrow> (thrown + replicas_response option) \<times> 'r"
  postV1Replicas :: "headers \<Rightarrow> string \<Rightarrow> replica_body \<Rightarrow> 'r \<Rightarrow> (thrown + replica) \<times> 'r"
  postV1ReplicasChatCompletions ::
    "headers \<Rightarrow> string \<Rightarrow> string \<Rightarrow> chat_body \<Rightarrow> 'r \<Rightarrow> (thrown + completion) \<times> 'r"

datatype console_entry = ConsoleLog string | ConsoleError string thrown

text \<open>
  The world a handler runs in: the component state, the state of the remote service,
  the network calls made so far (each with the component state at the moment of the
  call) and the console output.
\<close>

record 'r world =
  ui :: ComponentState
  remote :: 'r
  calls :: "(request \<times> ComponentState) list"
  console :: "console_entry list"

text \<open>One awaited remote call: the service answers and the call is recorded.\<close>

definition call ::
  "request \<Rightarrow> ('r \<Rightarrow> (thrown + 'a) \<times> 'r) \<Rightarrow> 'r world \<Rightarrow> (thrown + 'a) \<times> 'r world" where
  "call rq f w =
     (case f (remote w) of
        (res, r') \<Rightarrow> (res, w\<lparr>remote := r', calls := calls w @ [(rq, ui w)]\<rparr>))"

definition console_log :: "string \<Rightarrow> 'r world \<Rightarrow> 'r world" where
  "console_log s w = w\<lparr>console := console w @ [ConsoleLog s]\<rparr>"

definition console_error :: "string \<Rightarrow> thrown \<Rightarrow> 'r world \<Rightarrow> 'r world" where
  "console_error s e w = w\<lparr>console := console w @ [ConsoleError s e]\<rparr>"

subsection \<open>State setters\<close>

definition setMessages :: "(ChatMessage list \<Rightarrow> ChatMessage list) \<Rightarrow> 'r world \<Rightarrow> 'r world" where
  "setMessages f w = w\<lparr>ui := (ui w)\<lparr>messages := f (messages (ui w))\<rparr>\<rparr>"

definition setInputValue :: "string \<Rightarrow> 'r world \<Rightarrow> 'r world" where
  "setInputValue v w = w\<lparr>ui := (ui w)\<lparr>inputValue := v\<rparr>\<rparr>"

definition setIsLoading :: "bool \<Rightarrow> 'r world \<Rightarrow> 'r world" where
  "setIsLoading b w = w\<lparr>ui := (ui w)\<lparr>isLoading := b\<rparr>\<rparr>"

definition setError :: "jsval \<Rightarrow> 'r world \<Rightarrow> 'r world" where
  "setError v w = w\<lparr>ui := (ui w)\<lparr>error := v\<rparr>\<rparr>"

definition setLocalApiKey :: "string \<Rightarrow> 'r world \<Rightarrow> 'r world" where
  "setLocalApiKey k w = w\<lparr>ui := (ui w)\<lparr>localApiKey := k\<rparr>\<rparr>"

definition setShowConfig :: "bool \<Rightarrow> 'r world \<Rightarrow> 'r world" where
  "setShowConfig b w = w\<lparr>ui := (ui w)\<lparr>showConfig := b\<rparr>\<rparr>"

definition setReplicaUuid :: "string option \<Rightarrow> 'r world \<Rightarrow> 'r world" where
  "setReplicaUuid u w = w\<lparr>ui := (ui w)\<lparr>replicaUuid := u\<rparr>\<rparr>"

subsection \<open>Credential handlers\<close>

text \<open>The effect \<open>useEffect(..., [apiKey])\<close>, run when the prop \<open>apiKey\<close> changes.\<close>

definition apiKeyEffect :: "string option \<Rightarrow> 'r world \<Rightarrow> 'r world" where
  "apiKeyEffect apiKey w =
     (let w1 = console_log (''API Key provided: '' @ (if truthy_str apiKey then ''true'' else ''false'')) w
      in case apiKey of
           Some k \<Rightarrow> if k \<noteq> [] then setShowConfig False (setLocalApiKey k w1) else w1
         | None \<Rightarrow> w1)"

text \<open>\<open>handleInputChange\<close> and \<open>handleApiKeyChange\<close>, with \<open>e.target.value\<close> as argument.\<close>

definition handleInputChange :: "string \<Rightarrow> 'r world \<Rightarrow> 'r world" where
  "handleInputChange v w = setInputValue v w"

definition handleApiKeyChange :: "string \<Rightarrow> 'r world \<Rightarrow> 'r world" where
  "handleApiKeyChange v w = setReplicaUuid None (setLocalApiKey v w)"

subsection \<open>Session provisioning: \<open>initializeSession\<close>\<close>

text \<open>
  The two clients \<open>initializeSession\<close> constructs from \<open>localApiKey\<close>: one without
  and one with the header \<open>X-USER-ID\<close>; and the body of the user creation.
\<close>

definition orgOnlyClient :: "'r world \<Rightarrow> headers" where
  "orgOnlyClient w = \<lparr> X_ORGANIZATION_SECRET = localApiKey (ui w), X_USER_ID = None \<rparr>"

definition userClient :: "env \<Rightarrow> 'r world \<Rightarrow> headers" where
  "userClient E w =
     \<lparr> X_ORGANIZATION_SECRET = localApiKey (ui w), X_USER_ID = Some (SAMPLE_USER_ID E) \<rparr>"

definition sampleUserBody :: "env \<Rightarrow> user_body" where
  "sampleUserBody E =
     \<lparr> user_id = SAMPLE_USER_ID E,
       user_email = SAMPLE_USER_ID E @ ''@example.com'',
       user_name = ''Sample User'' \<rparr>"

text \<open>
  Steps 1 and 2: look the sample user up with the organisation-only client; the inner
  \<open>try/catch\<close> turns any failure of the lookup into \<open>userExists = false\<close>, and the
  user is then created. A failure of the creation escapes (\<open>Inl\<close>).
\<close>

definition ensureUser :: "env \<Rightarrow> 'r SensayAPI \<Rightarrow> 'r world \<Rightarrow> (thrown + unit) \<times> 'r world" where
  "ensureUser E api w =
     (let (userExists, w2) =
            (case call (GetV1Users (orgOnlyClient w) (SAMPLE_USER_ID E))
                       (getV1Users api (orgOnlyClient w) (SAMPLE_USER_ID E)) w of
               (Inr _, w1) \<Rightarrow> (True, console_log (''User '' @ SAMPLE_USER_ID E @ '' exists'') w1)
             | (Inl _, w1) \<Rightarrow>
                 (False, console_log (''User '' @ SAMPLE_USER_ID E @ '' does not exist, will create it'') w1))
      in if \<not> userExists then
           (case call (PostV1Users (orgOnlyClient w) (API_VERSION E) (sampleUserBody E))
                      (postV1Users api (orgOnlyClient w) (API_VERSION E) (sampleUserBody E)) w2 of
              (Inl e, w3) \<Rightarrow> (Inl e, w3)
            | (Inr _, w3) \<Rightarrow> (Inr (), console_log (''Created user '' @ SAMPLE_USER_ID E) w3))
         else (Inr (), w2))"

text \<open>
  Step 4, after the listing has returned: \<open>uuid\<close> is the identifier of the first
  listed agent with the sample slug, when the response and its \<open>items\<close> are there.
\<close>

definition findSampleReplica :: "env \<Rightarrow> replicas_response option \<Rightarrow> string option" where
  "findSampleReplica E replicas =
     (case replicas of
        None \<Rightarrow> None
      | Some rs \<Rightarrow>
          (case items rs of
             None \<Rightarrow> None
           | Some its \<Rightarrow>
               (case find (\<lambda>r. slug r = SAMPLE_REPLICA_SLUG E) its of
                  None \<Rightarrow> None
                | Some sampleReplica \<Rightarrow> Some (uuid sampleReplica))))"

text \<open>The body sent in step 5.\<close>

definition sampleReplicaBody :: "env \<Rightarrow> replica_body" where
  "sampleReplicaBody E =
     \<lparr> replica_name = ''Sample Replica'',
       shortDescription = ''A sample replica for demonstration'',
       greeting = ''Hello, I'' @ [CHR 0x27] @ ''m the sample replica. How can I help you today?'',
       replica_slug = SAMPLE_REPLICA_SLUG E,
       ownerID = SAMPLE_USER_ID E,
       llm = \<lparr> model = ''claude-3-7-sonnet-latest'',
               memoryMode = ''prompt-caching'',
               systemMessage = ''You are a helpful AI assistant that provides clear and concise responses.'' \<rparr> \<rparr>"

text \<open>Step 5: create the agent with the user-scoped client, passed as \<open>client\<close>.\<close>

definition createReplica ::
  "env \<Rightarrow> 'r SensayAPI \<Rightarrow> headers \<Rightarrow> 'r world \<Rightarrow> (thrown + string) \<times> 'r world" where
  "createReplica E api client w =
     (case call (PostV1Replicas client (API_VERSION E) (sampleReplicaBody E))
                (postV1Replicas api client (API_VERSION E) (sampleReplicaBody E)) w of
        (Inl e, w1) \<Rightarrow> (Inl e, w1)
      | (Inr newReplica, w1) \<Rightarrow>
          (Inr (uuid newReplica), console_log (''Created new replica: '' @ SAMPLE_REPLICA_SLUG E) w1))"

text \<open>
  Steps 3 to 5: list the agents with the user-scoped client, adopt the sample agent's
  identifier, and create the agent when \<open>!uuid\<close> (no identifier, or an empty one).
\<close>

definition resolveReplica :: "env \<Rightarrow> 'r SensayAPI \<Rightarrow> 'r world \<Rightarrow> (thrown + string) \<times> 'r world" where
  "resolveReplica E api w =
     (case call (GetV1Replicas (userClient E w)) (getV1Replicas api (userClient E w)) w of
        (Inl e, w1) \<Rightarrow> (Inl e, w1)
      | (Inr replicas, w1) \<Rightarrow>
          (case findSampleReplica E replicas of
             None \<Rightarrow> createReplica E api (userClient E w) w1
           | Some u \<Rightarrow>
               (let w2 = console_log (''Found existing replica: '' @ SAMPLE_REPLICA_SLUG E) w1
                in if u \<noteq> [] then (Inr u, w2) else createReplica E api (userClient E w) w2)))"

definition initializeSession_error :: string where
  "initializeSession_error = ''Failed to initialize Sensay session. Please check your API key.''"

text \<open>The outer \<open>try\<close> block, ending with \<open>setReplicaUuid(uuid); return uuid\<close>.\<close>

definition initializeSession_try ::
  "env \<Rightarrow> 'r SensayAPI \<Rightarrow> 'r world \<Rightarrow> (thrown + string) \<times> 'r world" where
  "initializeSession_try E api w =
     (case ensureUser E api w of
        (Inl e, w1) \<Rightarrow> (Inl e, w1)
      | (Inr _, w1) \<Rightarrow>
          (case resolveReplica E api w1 of
             (Inl e, w2) \<Rightarrow> (Inl e, w2)
           | (Inr u, w2) \<Rightarrow> (Inr u, setReplicaUuid (Some u) w2)))"

text \<open>
  \<open>initializeSession\<close>: the cached identifier when \<open>replicaUuid\<close> is truthy; otherwise
  the \<open>try\<close> block, whose every exception is logged and replaced by one \<open>Error\<close>.
  The parameter \<open>client\<close> is the one the source declares and never uses. Under the
  truthiness test \<open>replicaUuid\<close> is \<open>Some u\<close>; the branch for \<open>None\<close> is there
  for totality and is never taken.
\<close>

definition initializeSession ::
  "env \<Rightarrow> 'r SensayAPI \<Rightarrow> headers \<Rightarrow> 'r world \<Rightarrow> (thrown + string) \<times> 'r world" where
  "initializeSession E api client w =
     (if truthy_str (replicaUuid (ui w)) then
        (case replicaUuid (ui w) of Some u \<Rightarrow> (Inr u, w) | None \<Rightarrow> (Inr [], w))
      else
        (case initializeSession_try E api w of
           (Inl e, w1) \<Rightarrow>
             (Inl (ErrorInst initializeSession_error),
              console_error ''Error initializing session:'' e w1)
         | (Inr u, w1) \<Rightarrow> (Inr u, w1)))"

subsection \<open>Message exchange: \<open>handleSubmit\<close>\<close>

text \<open>
  \<open>String.prototype.trim\<close> on the characters of the model: the white space and line
  terminators below code 256 (tab, line feed, vertical tab, form feed, carriage return,
  space, no-break space).
\<close>

definition is_ws :: "char \<Rightarrow> bool" where
  "is_ws c = (c \<in> set [CHR 0x09, CHR 0x0A, CHR 0x0B, CHR 0x0C, CHR 0x0D, CHR 0x20, CHR 0xA0])"

definition trim :: "string \<Rightarrow> string" where
  "trim s = rev (dropWhile is_ws (rev (dropWhile is_ws s)))"

text \<open>The \<open>catch\<close> block of \<open>handleSubmit\<close>.\<close>

definition handleSubmit_catch :: "env \<Rightarrow> thrown \<Rightarrow> 'r world \<Rightarrow> 'r world" where
  "handleSubmit_catch E err w =
     (let w1 = console_error ''Error sending message:'' err w;
          errorMessage = extractErrorMessage E err;
          w2 = setError errorMessage w1;
          w3 = setIsLoading False w2
      in setMessages butlast w3)"

text \<open>
  The pieces of \<open>handleSubmit\<close> that its later steps refer to: \<open>userMessage\<close>,
  the \<open>client\<close> it constructs, the placeholder \<open>assistantMessage\<close> and the body of
  the completion request. \<open>inputValue\<close> and \<open>localApiKey\<close> are the values of the
  render the handler was created in, that is, of the world it starts from.
\<close>

definition userMessage :: "'r world \<Rightarrow> ChatMessage" where
  "userMessage w = \<lparr> role = User, content = inputValue (ui w), name = None \<rparr>"

definition assistantMessage :: ChatMessage where
  "assistantMessage = \<lparr> role = Assistant, content = [], name = None \<rparr>"

definition submitClient :: "env \<Rightarrow> 'r world \<Rightarrow> headers" where
  "submitClient E w =
     \<lparr> X_ORGANIZATION_SECRET = localApiKey (ui w), X_USER_ID = Some (SAMPLE_USER_ID E) \<rparr>"

definition completionBody :: "'r world \<Rightarrow> chat_body" where
  "completionBody w =
     \<lparr> chat_content = content (userMessage w), source = ''web'', skip_chat_history = False \<rparr>"

text \<open>
  Lines 145 to 154: \<open>setError(null)\<close>, the user message appended, the input
  cleared.
\<close>

definition submitAccepted :: "'r world \<Rightarrow> 'r world" where
  "submitAccepted w =
     (let w1 = setError JNull w;
          w2 = setMessages (\<lambda>prevMessages. prevMessages @ [userMessage w]) w1
      in setInputValue [] w2)"

text \<open>
  \<open>handleSubmit\<close>. The update of the last message writes index \<open>length - 1\<close>; on
  an empty transcript that index is \<open>-1\<close> and no element changes, which is what the
  list update of the empty list does too. \<open>e.preventDefault()\<close>, the scrolling effect
  and the rendering do not touch the state cells and are left out.
\<close>

definition handleSubmit :: "env \<Rightarrow> 'r SensayAPI \<Rightarrow> 'r world \<Rightarrow> 'r world" where
  "handleSubmit E api w =
     (if trim (inputValue (ui w)) = [] then w
      else if localApiKey (ui w) = [] then setError (JStr ''Please provide an API key'') w
      else
        (let w3 = submitAccepted w;
             client = submitClient E w
         in case initializeSession E api client w3 of
              (Inl err, w4) \<Rightarrow> handleSubmit_catch E err w4
            | (Inr replica, w4) \<Rightarrow>
                (let w5 = setMessages (\<lambda>prevMessages. prevMessages @ [assistantMessage]) w4;
                     w6 = setIsLoading True w5
                 in case call (PostV1ReplicasChatCompletions client replica (API_VERSION E)
                                 (completionBody w))
                              (postV1ReplicasChatCompletions api client replica (API_VERSION E)
                                 (completionBody w)) w6 of
                      (Inl err, w7) \<Rightarrow> handleSubmit_catch E err w7
                    | (Inr response, w7) \<Rightarrow>
                        (let w8 = setMessages
                                    (\<lambda>prevMessages.
                                       prevMessages[length prevMessages - 1 :=
                                         \<lparr> role = Assistant, content = completion_content response,
                                           name = None \<rparr>]) w7
                         in setIsLoading False w8))))"

subsection \<open>Observations on the record of network calls\<close>

text \<open>The calls a handler made: those recorded after the ones of the starting world.\<close>

definition newCalls :: "'r world \<Rightarrow> 'r world \<Rightarrow> (request \<times> ComponentState) list" where
  "newCalls w w' = drop (length (calls w)) (calls w')"

fun isUserCreation :: "request \<Rightarrow> bool" where
  "isUserCreation (PostV1Users h v b) = True"
| "isUserCreation rq = False"

fun isReplicaCreation :: "request \<Rightarrow> bool" where
  "isReplicaCreation (PostV1Replicas h v b) = True"
| "isReplicaCreation rq = False"

fun isCompletion :: "request \<Rightarrow> bool" where
  "isCompletion (PostV1ReplicasChatCompletions h r v b) = True"
| "isCompletion rq = False"

definition countCalls :: "(request \<Rightarrow> bool) \<Rightarrow> (request \<times> ComponentState) list \<Rightarrow> nat" where
  "countCalls P cs = length (filter (\<lambda>c. P (fst c)) cs)"

text \<open>\<open>typeof v === 'string'\<close>.\<close>

fun isString :: "jsval \<Rightarrow> bool" where
  "isString (JStr s) = True"
| "isString v = False"

subsection \<open>A concrete environment, remote services and worlds\<close>

text \<open>
  Values for the examples below. \<open>stringifyEmpty\<close> stands for \<open>JSON.stringify\<close> and
  is right on the empty object, the only value the examples apply it to.
\<close>

definition stringifyEmpty :: "jsval \<Rightarrow> string" where
  "stringifyEmpty v = ''{}''"

definition demoEnv :: env where
  "demoEnv = \<lparr> SAMPLE_USER_ID = ''sample-user'', SAMPLE_REPLICA_SLUG = ''sample-replica'',
               API_VERSION = ''2025-03-25'', JSON_stringify = stringifyEmpty \<rparr>"

text \<open>
  A remote service that answers every endpoint with a fixed result and counts the
  requests it has served.
\<close>

definition scriptedAPI ::
  "(thrown + unit) \<Rightarrow> (thrown + unit) \<Rightarrow> (thrown + replicas_response option) \<Rightarrow>
   (thrown + replica) \<Rightarrow> (thrown + completion) \<Rightarrow> nat SensayAPI" where
  "scriptedAPI getUser createUser listReplicas createRep complete =
     \<lparr> getV1Users = (\<lambda>h i r. (getUser, Suc r)),
       postV1Users = (\<lambda>h v b r. (createUser, Suc r)),
       getV1Replicas = (\<lambda>h r. (listReplicas, Suc r)),
       postV1Replicas = (\<lambda>h v b r. (createRep, Suc r)),
       postV1ReplicasChatCompletions = (\<lambda>h u v b r. (complete, Suc r)) \<rparr>"

definition demoReplica :: replica where
  "demoReplica = \<lparr> slug = ''sample-replica'', uuid = ''r-1'' \<rparr>"

definition otherReplica :: replica where
  "otherReplica = \<lparr> slug = ''other'', uuid = ''r-0'' \<rparr>"

definition serverError :: thrown where
  "serverError = Thrown (JObj [(''response'', JObj [(''status'', JNum 500), (''data'', JObj [])])])"

text \<open>The service on which everything succeeds and the sample agent is listed.\<close>

definition happyAPI :: "nat SensayAPI" where
  "happyAPI =
     scriptedAPI (Inr ()) (Inr ())
       (Inr (Some \<lparr> items = Some [otherReplica, demoReplica] \<rparr>))
       (Inr \<lparr> slug = ''sample-replica'', uuid = ''r-2'' \<rparr>)
       (Inr \<lparr> completion_content = ''Hi there'' \<rparr>)"

text \<open>
  Services on which one call fails with \<open>serverError\<close>: the user lookup; the lookup
  and the user creation; the agent listing; the agent creation (no sample agent is
  listed); the completion. \<open>noReplicaAPI\<close> lists no sample agent and creates one.
\<close>

definition createdReplica :: replica where
  "createdReplica = \<lparr> slug = ''sample-replica'', uuid = ''r-2'' \<rparr>"

definition lookupFailsAPI :: "nat SensayAPI" where
  "lookupFailsAPI =
     scriptedAPI (Inl serverError) (Inr ())
       (Inr (Some \<lparr> items = Some [otherReplica, demoReplica] \<rparr>))
       (Inr createdReplica) (Inr \<lparr> completion_content = ''Hi there'' \<rparr>)"

definition createUserFailsAPI :: "nat SensayAPI" where
  "createUserFailsAPI =
     scriptedAPI (Inl (ErrorInst ''not found'')) (Inl serverError)
       (Inr (Some \<lparr> items = Some [otherReplica, demoReplica] \<rparr>))
       (Inr createdReplica) (Inr \<lparr> completion_content = ''Hi there'' \<rparr>)"

definition listFailsAPI :: "nat SensayAPI" where
  "listFailsAPI =
     scriptedAPI (Inr ()) (Inr ()) (Inl serverError)
       (Inr createdReplica) (Inr \<lparr> completion_content = ''Hi there'' \<rparr>)"

definition noReplicaAPI :: "nat SensayAPI" where
  "noReplicaAPI =
     scriptedAPI (Inr ()) (Inr ())
       (Inr (Some \<lparr> items = Some [otherReplica] \<rparr>))
       (Inr createdReplica) (Inr \<lparr> completion_content = ''Hi there'' \<rparr>)"

definition createReplicaFailsAPI :: "nat SensayAPI" where
  "createReplicaFailsAPI =
     scriptedAPI (Inr ()) (Inr ())
       (Inr (Some \<lparr> items = Some [otherReplica] \<rparr>))
       (Inl serverError) (Inr \<lparr> completion_content = ''Hi there'' \<rparr>)"

definition completionFailsAPI :: "nat SensayAPI" where
  "completionFailsAPI =
     scriptedAPI (Inr ()) (Inr ())
       (Inr (Some \<lparr> items = Some [otherReplica, demoReplica] \<rparr>))
       (Inr createdReplica) (Inl serverError)"

text \<open>A world: the given component state, a fresh service, nothing recorded.\<close>

definition worldOf :: "ComponentState \<Rightarrow> nat world" where
  "worldOf st = \<lparr> ui = st, remote = 0, calls = [], console = [] \<rparr>"

text \<open>The component mounted with credential \<open>k\<close> and \<open>text\<close> typed into the input.\<close>

definition typed :: "string \<Rightarrow> string \<Rightarrow> nat world" where
  "typed k text = handleInputChange text (worldOf (initialState (Some k)))"

text \<open>
  The world after the first provisioning on \<open>noReplicaAPI\<close>, which creates the
  agent \<open>r-2\<close>.
\<close>

definition provisionedWorld :: "nat world" where
  "provisionedWorld =
     snd (initializeSession demoEnv noReplicaAPI (userClient demoEnv (typed ''key-1'' ''Hello''))
            (typed ''key-1'' ''Hello''))"

text \<open>
  Services that answer with an empty identifier: \<open>emptyUuidAPI\<close> lists no sample
  agent and creates one whose \<open>uuid\<close> is the empty string; \<open>emptyListedAPI\<close> lists
  a sample agent whose \<open>uuid\<close> is the empty string and creates \<open>r-2\<close>.
  \<open>freshAccountAPI\<close> knows neither the user nor a sample agent and creates both.
\<close>

definition emptyUuidReplica :: replica where
  "emptyUuidReplica = \<lparr> slug = ''sample-replica'', uuid = [] \<rparr>"

definition emptyUuidAPI :: "nat SensayAPI" where
  "emptyUuidAPI =
     scriptedAPI (Inr ()) (Inr ())
       (Inr (Some \<lparr> items = Some [otherReplica] \<rparr>))
       (Inr emptyUuidReplica) (Inr \<lparr> completion_content = ''Hi there'' \<rparr>)"



text \<open>The world after the first provisioning on \<open>emptyUuidAPI\<close>.\<close>

definition emptyUuidWorld :: "nat world" where
  "emptyUuidWorld =
     snd (initializeSession demoEnv emptyUuidAPI (userClient demoEnv (typed ''key-1'' ''Hello''))
            (typed ''key-1'' ''Hello''))"

subsection \<open>Predicates used in the statements\<close>

text \<open>
  A submission is accepted when it passes both guards of \<open>handleSubmit\<close>: the input
  is not blank and a credential is present.
\<close>

definition accepted :: "'r world \<Rightarrow> bool" where
  "accepted w \<longleftrightarrow> trim (inputValue (ui w)) \<noteq> [] \<and> localApiKey (ui w) \<noteq> []"

text \<open>
  A step of provisioning from \<open>w\<close> to \<open>w'\<close>: the component state is untouched, the
  record of calls only grows, and every call made saw the component state of \<open>w\<close> and is
  not a completion request.
\<close>

definition provisioningStep :: "'r world \<Rightarrow> 'r world \<Rightarrow> bool" where
  "provisioningStep w w' \<longleftrightarrow>
     ui w' = ui w \<and> prefix (calls w) (calls w') \<and>
     list_all (\<lambda>c. snd c = ui w \<and> \<not> isCompletion (fst c)) (newCalls w w')"

text \<open>
  The component state while the completion is awaited, and the completion request, for
  the world \<open>w4\<close> that \<open>initializeSession\<close> returned.
\<close>

definition awaiting :: "'r world \<Rightarrow> ComponentState" where
  "awaiting w4 = (ui w4)\<lparr>messages := messages (ui w4) @ [assistantMessage], isLoading := True\<rparr>"

definition completionRequest :: "env \<Rightarrow> 'r world \<Rightarrow> string \<Rightarrow> request" where
  "completionRequest E w replica =
     PostV1ReplicasChatCompletions (submitClient E w) replica (API_VERSION E) (completionBody w)"

section \<open>Properties\<close>

subsection \<open>The record of calls\<close>


lemma newCalls_self: "newCalls w w = []"
  by (simp add: newCalls_def)

lemma newCalls_append:
  "calls w' = calls w @ cs \<Longrightarrow> newCalls w w' = cs"
  by (simp add: newCalls_def)

lemma newCalls_trans:
  "prefix (calls w) (calls w') \<Longrightarrow> prefix (calls w') (calls w'') \<Longrightarrow>
   newCalls w w'' = newCalls w w' @ newCalls w' w''"
  by (auto simp: newCalls_def prefix_def)

lemma countCalls_append: "countCalls P (xs @ ys) = countCalls P xs + countCalls P ys"
  by (simp add: countCalls_def)

lemma provisioningStep_refl: "provisioningStep w w"
  by (simp add: provisioningStep_def newCalls_def)

lemma provisioningStep_trans:
  "provisioningStep w w' \<Longrightarrow> provisioningStep w' w'' \<Longrightarrow> provisioningStep w w''"
proof -
  assume a: "provisioningStep w w'" and b: "provisioningStep w' w''"
  from a obtain xs where xs: "calls w' = calls w @ xs"
    by (auto simp: provisioningStep_def prefix_def)
  from b obtain ys where ys: "calls w'' = calls w' @ ys"
    by (auto simp: provisioningStep_def prefix_def)
  have nx: "newCalls w w' = xs" using xs by (simp add: newCalls_def)
  have ny: "newCalls w' w'' = ys" using ys by (simp add: newCalls_def)
  have nz: "newCalls w w'' = xs @ ys" using xs ys by (simp add: newCalls_def)
  have u: "ui w' = ui w" "ui w'' = ui w'"
    using a b by (simp_all add: provisioningStep_def)
  have "list_all (\<lambda>c. snd c = ui w \<and> \<not> isCompletion (fst c)) xs"
    using a nx by (simp add: provisioningStep_def)
  moreover have "list_all (\<lambda>c. snd c = ui w \<and> \<not> isCompletion (fst c)) ys"
    using b ny u by (simp add: provisioningStep_def)
  ultimately show ?thesis
    using u xs ys nz by (simp add: provisioningStep_def)
qed

lemma ensureUser_step:
  "ensureUser E api w = (r, w') \<Longrightarrow>
   provisioningStep w w' \<and> countCalls isUserCreation (newCalls w w') \<le> 1
   \<and> countCalls isReplicaCreation (newCalls w w') = 0"
  by (auto simp: ensureUser_def Let_def call_def console_log_def provisioningStep_def
                 newCalls_def countCalls_def
           split: prod.splits sum.splits if_splits)

lemma createReplica_step:
  "createReplica E api uc w = (r, w') \<Longrightarrow>
   provisioningStep w w' \<and> countCalls isUserCreation (newCalls w w') = 0
   \<and> countCalls isReplicaCreation (newCalls w w') \<le> 1"
  by (auto simp: createReplica_def Let_def call_def console_log_def provisioningStep_def
                 newCalls_def countCalls_def
           split: prod.splits sum.splits if_splits)

lemma resolveReplica_step:
  "resolveReplica E api w = (r, w') \<Longrightarrow>
   provisioningStep w w' \<and> countCalls isUserCreation (newCalls w w') = 0
   \<and> countCalls isReplicaCreation (newCalls w w') \<le> 1"
  by (auto simp: resolveReplica_def createReplica_def Let_def call_def console_log_def provisioningStep_def
                 newCalls_def countCalls_def
           split: prod.splits sum.splits if_splits option.splits)

lemma initializeSession_cached:
  "replicaUuid (ui w) = Some u \<Longrightarrow> u \<noteq> [] \<Longrightarrow> initializeSession E api c w = (Inr u, w)"
  by (simp add: initializeSession_def)

lemma initializeSession_try_frame:
  assumes "initializeSession_try E api w = (r, w')"
  shows "ui w' = (ui w)\<lparr>replicaUuid := replicaUuid (ui w')\<rparr>
         \<and> prefix (calls w) (calls w')
         \<and> list_all (\<lambda>c. snd c = ui w \<and> \<not> isCompletion (fst c)) (newCalls w w')
         \<and> countCalls isUserCreation (newCalls w w') \<le> 1
         \<and> countCalls isReplicaCreation (newCalls w w') \<le> 1
         \<and> (case r of Inl e \<Rightarrow> ui w' = ui w | Inr u \<Rightarrow> replicaUuid (ui w') = Some u)"
proof -
  obtain r1 w1 where e1: "ensureUser E api w = (r1, w1)" by (cases "ensureUser E api w")
  note s1 = ensureUser_step [OF e1]
  show ?thesis
  proof (cases r1)
    case (Inl e)
    with assms e1 have "r = Inl e" "w' = w1" by (simp_all add: initializeSession_try_def)
    with s1 show ?thesis by (simp add: provisioningStep_def)
  next
    case (Inr x)
    obtain r2 w2 where e2: "resolveReplica E api w1 = (r2, w2)" by (cases "resolveReplica E api w1")
    note s2 = resolveReplica_step [OF e2]
    have st: "provisioningStep w w2"
      using s1 s2 provisioningStep_trans by blast
    have nc: "newCalls w w2 = newCalls w w1 @ newCalls w1 w2"
      using s1 s2 by (simp add: provisioningStep_def newCalls_trans)
    have cnt: "countCalls isUserCreation (newCalls w w2) \<le> 1"
              "countCalls isReplicaCreation (newCalls w w2) \<le> 1"
      using s1 s2 by (simp_all add: nc countCalls_append)
    show ?thesis
    proof (cases r2)
      case (Inl e)
      with assms e1 e2 Inr have "r = Inl e" "w' = w2" by (simp_all add: initializeSession_try_def)
      with st cnt show ?thesis by (simp add: provisioningStep_def)
    next
      case (Inr u)
      with assms e1 e2 \<open>r1 = Inr x\<close> have rw: "r = Inr u" "w' = setReplicaUuid (Some u) w2"
        by (simp_all add: initializeSession_try_def)
      have "calls w' = calls w2" "ui w' = (ui w2)\<lparr>replicaUuid := Some u\<rparr>"
        using rw by (simp_all add: setReplicaUuid_def)
      with st cnt rw show ?thesis by (simp add: provisioningStep_def newCalls_def)
    qed
  qed
qed

lemma initializeSession_frame:
  assumes "initializeSession E api c w = (r, w')"
  shows "ui w' = (ui w)\<lparr>replicaUuid := replicaUuid (ui w')\<rparr>
         \<and> prefix (calls w) (calls w')
         \<and> list_all (\<lambda>c. snd c = ui w \<and> \<not> isCompletion (fst c)) (newCalls w w')
         \<and> countCalls isUserCreation (newCalls w w') \<le> 1
         \<and> countCalls isReplicaCreation (newCalls w w') \<le> 1
         \<and> (case r of Inl e \<Rightarrow> e = ErrorInst initializeSession_error \<and> ui w' = ui w
                     | Inr u \<Rightarrow> replicaUuid (ui w') = Some u)"
proof (cases "truthy_str (replicaUuid (ui w))")
  case True
  then obtain u where "replicaUuid (ui w) = Some u" "u \<noteq> []"
    by (cases "replicaUuid (ui w)") auto
  with assms have "r = Inr u" "w' = w" by (simp_all add: initializeSession_def)
  with \<open>replicaUuid (ui w) = Some u\<close> show ?thesis by (simp add: newCalls_def countCalls_def)
next
  case False
  obtain r1 w1 where t: "initializeSession_try E api w = (r1, w1)"
    by (cases "initializeSession_try E api w")
  note f = initializeSession_try_frame [OF t]
  show ?thesis
  proof (cases r1)
    case (Inl e)
    with assms False t have rw: "r = Inl (ErrorInst initializeSession_error)"
        "w' = console_error ''Error initializing session:'' e w1"
      by (simp_all add: initializeSession_def)
    have "calls w' = calls w1" "ui w' = ui w1" using rw by (simp_all add: console_error_def)
    with f Inl rw show ?thesis by (simp add: newCalls_def)
  next
    case (Inr u)
    with assms False t have rw: "r = Inr u" "w' = w1" by (simp_all add: initializeSession_def)
    from f Inr have a: "replicaUuid (ui w1) = Some u" by simp
    from f have b: "ui w1 = (ui w)\<lparr>replicaUuid := replicaUuid (ui w1)\<rparr>" by blast
    from f have c: "prefix (calls w) (calls w1)"
        "list_all (\<lambda>c. snd c = ui w \<and> \<not> isCompletion (fst c)) (newCalls w w1)"
        "countCalls isUserCreation (newCalls w w1) \<le> 1"
        "countCalls isReplicaCreation (newCalls w w1) \<le> 1"
      by blast+
    show ?thesis unfolding rw using a b c by simp
  qed
qed

lemma submitAccepted_simps:
  "ui (submitAccepted w) =
     (ui w)\<lparr>error := JNull, messages := messages (ui w) @ [userMessage w], inputValue := []\<rparr>"
  "calls (submitAccepted w) = calls w"
  "remote (submitAccepted w) = remote w"
  "console (submitAccepted w) = console w"
  by (simp_all add: submitAccepted_def setError_def setMessages_def setInputValue_def)

lemma handleSubmit_catch_simps:
  "ui (handleSubmit_catch E err w) =
     (ui w)\<lparr>error := extractErrorMessage E err, isLoading := False,
            messages := butlast (messages (ui w))\<rparr>"
  "calls (handleSubmit_catch E err w) = calls w"
  "remote (handleSubmit_catch E err w) = remote w"
  "console (handleSubmit_catch E err w) = console w @ [ConsoleError ''Error sending message:'' err]"
  by (simp_all add: handleSubmit_catch_def setError_def setMessages_def setIsLoading_def
                    console_error_def)

lemma handleSubmit_init_failure:
  assumes "accepted w"
    and "initializeSession E api (submitClient E w) (submitAccepted w) = (Inl e, w4)"
  shows "handleSubmit E api w = handleSubmit_catch E e w4"
  using assms by (simp add: handleSubmit_def accepted_def)

lemma handleSubmit_completion_failure:
  assumes "accepted w"
    and "initializeSession E api (submitClient E w) (submitAccepted w) = (Inr rep, w4)"
    and "postV1ReplicasChatCompletions api (submitClient E w) rep (API_VERSION E)
           (completionBody w) (remote w4) = (Inl e, r')"
  shows "ui (handleSubmit E api w) =
           (ui w4)\<lparr>messages := messages (ui w4), isLoading := False,
                   error := extractErrorMessage E e\<rparr>"
    and "calls (handleSubmit E api w) = calls w4 @ [(completionRequest E w rep, awaiting w4)]"
  using assms
  by (simp_all add: handleSubmit_def accepted_def call_def setMessages_def setIsLoading_def
        handleSubmit_catch_simps awaiting_def completionRequest_def)

lemma handleSubmit_success:
  assumes "accepted w"
    and "initializeSession E api (submitClient E w) (submitAccepted w) = (Inr rep, w4)"
    and "postV1ReplicasChatCompletions api (submitClient E w) rep (API_VERSION E)
           (completionBody w) (remote w4) = (Inr response, r')"
  shows "ui (handleSubmit E api w) =
           (ui w4)\<lparr>messages := messages (ui w4)
                       @ [\<lparr> role = Assistant, content = completion_content response, name = None \<rparr>],
                   isLoading := False\<rparr>"
    and "calls (handleSubmit E api w) = calls w4 @ [(completionRequest E w rep, awaiting w4)]"
  using assms
  by (simp_all add: handleSubmit_def accepted_def call_def setMessages_def setIsLoading_def
        awaiting_def completionRequest_def)

lemma initializeSession_ui_fields:
  assumes "initializeSession E api c w = (r, w')"
  shows "messages (ui w') = messages (ui w)" "inputValue (ui w') = inputValue (ui w)"
    "isLoading (ui w') = isLoading (ui w)" "error (ui w') = error (ui w)"
    "localApiKey (ui w') = localApiKey (ui w)" "showConfig (ui w') = showConfig (ui w)"
proof -
  from initializeSession_frame [OF assms]
  have e: "ui w' = (ui w)\<lparr>replicaUuid := replicaUuid (ui w')\<rparr>" by blast
  have "messages (ui w') = messages ((ui w)\<lparr>replicaUuid := replicaUuid (ui w')\<rparr>)"
    using e by simp
  then show "messages (ui w') = messages (ui w)" by simp
  have "inputValue (ui w') = inputValue ((ui w)\<lparr>replicaUuid := replicaUuid (ui w')\<rparr>)"
    using e by simp
  then show "inputValue (ui w') = inputValue (ui w)" by simp
  have "isLoading (ui w') = isLoading ((ui w)\<lparr>replicaUuid := replicaUuid (ui w')\<rparr>)"
    using e by simp
  then show "isLoading (ui w') = isLoading (ui w)" by simp
  have "error (ui w') = error ((ui w)\<lparr>replicaUuid := replicaUuid (ui w')\<rparr>)"
    using e by simp
  then show "error (ui w') = error (ui w)" by simp
  have "localApiKey (ui w') = localApiKey ((ui w)\<lparr>replicaUuid := replicaUuid (ui w')\<rparr>)"
    using e by simp
  then show "localApiKey (ui w') = localApiKey (ui w)" by simp
  have "showConfig (ui w') = showConfig ((ui w)\<lparr>replicaUuid := replicaUuid (ui w')\<rparr>)"
    using e by simp
  then show "showConfig (ui w') = showConfig (ui w)" by simp
qed

lemma handleSubmit_newCalls:
  assumes acc: "accepted w"
    and init: "initializeSession E api (submitClient E w) (submitAccepted w) = (r, w4)"
  shows "newCalls w (handleSubmit E api w) =
           newCalls (submitAccepted w) w4 @
           (case r of Inl e \<Rightarrow> [] | Inr rep \<Rightarrow> [(completionRequest E w rep, awaiting w4)])"
proof -
  from initializeSession_frame [OF init]
  have "prefix (calls (submitAccepted w)) (calls w4)" by blast
  then obtain cs where cs: "calls w4 = calls w @ cs"
    by (auto simp: prefix_def submitAccepted_simps)
  have n4: "newCalls (submitAccepted w) w4 = cs"
    using cs by (simp add: newCalls_def submitAccepted_simps)
  show ?thesis
  proof (cases r)
    case (Inl e)
    with init have "handleSubmit E api w = handleSubmit_catch E e w4"
      using acc by (simp add: handleSubmit_init_failure)
    then show ?thesis using Inl cs n4 by (simp add: newCalls_def handleSubmit_catch_simps)
  next
    case (Inr rep)
    obtain res r' where p: "postV1ReplicasChatCompletions api (submitClient E w) rep (API_VERSION E)
           (completionBody w) (remote w4) = (res, r')"
      by (cases "postV1ReplicasChatCompletions api (submitClient E w) rep (API_VERSION E)
           (completionBody w) (remote w4)")
    have "calls (handleSubmit E api w) = calls w4 @ [(completionRequest E w rep, awaiting w4)]"
    proof (cases res)
      case (Inl e)
      show ?thesis
        using handleSubmit_completion_failure(2) [OF acc init [unfolded Inr] p [unfolded Inl]] .
    next
      case (Inr response)
      show ?thesis
        using handleSubmit_success(2) [OF acc init [unfolded \<open>r = Inr rep\<close>] p [unfolded Inr]] .
    qed
    then show ?thesis using Inr cs n4 by (simp add: newCalls_def)
  qed
qed

lemma handleSubmit_final:
  assumes acc: "accepted w"
  shows "inputValue (ui (handleSubmit E api w)) = []" "\<not> isLoading (ui (handleSubmit E api w))"
proof -
  obtain r w4 where init: "initializeSession E api (submitClient E w) (submitAccepted w) = (r, w4)"
    by (cases "initializeSession E api (submitClient E w) (submitAccepted w)")
  have iv: "inputValue (ui w4) = []"
    using initializeSession_ui_fields(2) [OF init] by (simp add: submitAccepted_simps)
  have "inputValue (ui (handleSubmit E api w)) = [] \<and> \<not> isLoading (ui (handleSubmit E api w))"
  proof (cases r)
    case (Inl e)
    with init have "handleSubmit E api w = handleSubmit_catch E e w4"
      using acc by (simp add: handleSubmit_init_failure)
    then show ?thesis using iv by (simp add: handleSubmit_catch_simps)
  next
    case (Inr rep)
    obtain res r' where p: "postV1ReplicasChatCompletions api (submitClient E w) rep (API_VERSION E)
           (completionBody w) (remote w4) = (res, r')"
      by (cases "postV1ReplicasChatCompletions api (submitClient E w) rep (API_VERSION E)
           (completionBody w) (remote w4)")
    show ?thesis
    proof (cases res)
      case (Inl e)
      show ?thesis
        using handleSubmit_completion_failure(1) [OF acc init [unfolded Inr] p [unfolded Inl]] iv
        by simp
    next
      case (Inr response)
      show ?thesis
        using handleSubmit_success(1) [OF acc init [unfolded \<open>r = Inr rep\<close>] p [unfolded Inr]] iv
        by simp
    qed
  qed
  then show "inputValue (ui (handleSubmit E api w)) = []" "\<not> isLoading (ui (handleSubmit E api w))"
    by simp_all
qed

lemma handleSubmit_snapshots:
  assumes acc: "accepted w"
  shows "list_all (\<lambda>c. if isCompletion (fst c)
                        then messages (snd c) = messages (ui w) @ [userMessage w, assistantMessage]
                             \<and> isLoading (snd c) \<and> inputValue (snd c) = []
                        else messages (snd c) = messages (ui w) @ [userMessage w]
                             \<and> isLoading (snd c) = isLoading (ui w) \<and> inputValue (snd c) = [])
           (newCalls w (handleSubmit E api w))"
    and "list_all (\<lambda>c. \<not> isCompletion (fst c)) (butlast (newCalls w (handleSubmit E api w)))"
proof -
  obtain r w4 where init: "initializeSession E api (submitClient E w) (submitAccepted w) = (r, w4)"
    by (cases "initializeSession E api (submitClient E w) (submitAccepted w)")
  note nc = handleSubmit_newCalls [OF acc init]
  from initializeSession_frame [OF init]
  have prov: "list_all (\<lambda>c. snd c = ui (submitAccepted w) \<and> \<not> isCompletion (fst c))
                (newCalls (submitAccepted w) w4)" by blast
  have prov': "list_all (\<lambda>c. if isCompletion (fst c)
                        then messages (snd c) = messages (ui w) @ [userMessage w, assistantMessage]
                             \<and> isLoading (snd c) \<and> inputValue (snd c) = []
                        else messages (snd c) = messages (ui w) @ [userMessage w]
                             \<and> isLoading (snd c) = isLoading (ui w) \<and> inputValue (snd c) = [])
                (newCalls (submitAccepted w) w4)"
    using prov by (auto simp: list_all_iff submitAccepted_simps)
  have prov'': "list_all (\<lambda>c. \<not> isCompletion (fst c)) (newCalls (submitAccepted w) w4)"
    using prov by (auto simp: list_all_iff)
  have aw: "messages (awaiting w4) = messages (ui w) @ [userMessage w, assistantMessage]"
      "isLoading (awaiting w4)" "inputValue (awaiting w4) = []"
    using initializeSession_ui_fields(1,2) [OF init]
    by (simp_all add: awaiting_def submitAccepted_simps)
  show "list_all (\<lambda>c. if isCompletion (fst c)
                        then messages (snd c) = messages (ui w) @ [userMessage w, assistantMessage]
                             \<and> isLoading (snd c) \<and> inputValue (snd c) = []
                        else messages (snd c) = messages (ui w) @ [userMessage w]
                             \<and> isLoading (snd c) = isLoading (ui w) \<and> inputValue (snd c) = [])
           (newCalls w (handleSubmit E api w))"
    unfolding nc using prov' aw by (cases r) (simp_all add: completionRequest_def)
  show "list_all (\<lambda>c. \<not> isCompletion (fst c)) (butlast (newCalls w (handleSubmit E api w)))"
    unfolding nc using prov'' by (cases r) (auto simp: list_all_iff dest: in_set_butlastD)
qed

subsection \<open>The steps of \<open>initializeSession\<close> in terms of the service's answers\<close>

lemma userClient_ensureUser:
  "ensureUser E api w = (r, wa) \<Longrightarrow> userClient E wa = userClient E w"
  using ensureUser_step [of E api w r wa] by (simp add: provisioningStep_def userClient_def)

lemma ensureUser_lookup_fails:
  assumes "getV1Users api (orgOnlyClient w) (SAMPLE_USER_ID E) (remote w) = (Inl d0, ra)"
    and "postV1Users api (orgOnlyClient w) (API_VERSION E) (sampleUserBody E) ra = (res, rb)"
  shows "fst (ensureUser E api w) = (case res of Inl d \<Rightarrow> Inl d | Inr x \<Rightarrow> Inr ())"
    and "calls (snd (ensureUser E api w)) =
           calls w @ [(GetV1Users (orgOnlyClient w) (SAMPLE_USER_ID E), ui w),
                      (PostV1Users (orgOnlyClient w) (API_VERSION E) (sampleUserBody E), ui w)]"
    and "remote (snd (ensureUser E api w)) = rb"
  using assms
  by (simp_all add: ensureUser_def call_def console_log_def split: sum.splits)

lemma resolveReplica_list_fails:
  assumes "getV1Replicas api (userClient E w) (remote w) = (Inl d, rb)"
  shows "resolveReplica E api w =
           (Inl d, w\<lparr>remote := rb, calls := calls w @ [(GetV1Replicas (userClient E w), ui w)]\<rparr>)"
  using assms by (simp add: resolveReplica_def call_def)


lemma resolveReplica_creates:
  assumes "getV1Replicas api (userClient E w) (remote w) = (Inr rs, rb)"
    and "\<not> truthy_str (findSampleReplica E rs)"
    and "postV1Replicas api (userClient E w) (API_VERSION E) (sampleReplicaBody E) rb = (res, rc)"
  shows "fst (resolveReplica E api w) = (case res of Inl d \<Rightarrow> Inl d | Inr nr \<Rightarrow> Inr (uuid nr))"
    and "calls (snd (resolveReplica E api w)) =
           calls w @ [(GetV1Replicas (userClient E w), ui w),
                      (PostV1Replicas (userClient E w) (API_VERSION E) (sampleReplicaBody E), ui w)]"
  using assms
  by (cases "findSampleReplica E rs";
      simp add: resolveReplica_def createReplica_def call_def console_log_def split: sum.splits)+

lemma initializeSession_uncached:
  assumes "\<not> truthy_str (replicaUuid (ui w))"
  shows "fst (initializeSession E api c w) =
           (case fst (initializeSession_try E api w) of
              Inl d \<Rightarrow> Inl (ErrorInst initializeSession_error) | Inr u \<Rightarrow> Inr u)"
    and "calls (snd (initializeSession E api c w)) = calls (snd (initializeSession_try E api w))"
    and "ui (snd (initializeSession E api c w)) = ui (snd (initializeSession_try E api w))"
    and "console (snd (initializeSession E api c w)) =
           console (snd (initializeSession_try E api w)) @
           (case fst (initializeSession_try E api w) of
              Inl d \<Rightarrow> [ConsoleError ''Error initializing session:'' d] | Inr u \<Rightarrow> [])"
  using assms
  by (simp_all add: initializeSession_def console_error_def split: prod.splits sum.splits)

lemma initializeSession_try_user_fails:
  assumes "fst (ensureUser E api w) = Inl d"
  shows "initializeSession_try E api w = (Inl d, snd (ensureUser E api w))"
  using assms by (cases "ensureUser E api w") (simp add: initializeSession_try_def)

lemma initializeSession_try_user_ok:
  assumes "ensureUser E api w = (Inr x, wa)"
  shows "fst (initializeSession_try E api w) = fst (resolveReplica E api wa)"
    and "calls (snd (initializeSession_try E api w)) = calls (snd (resolveReplica E api wa))"
    and "replicaUuid (ui (snd (initializeSession_try E api w))) =
          (case fst (resolveReplica E api wa) of
             Inl d \<Rightarrow> replicaUuid (ui (snd (resolveReplica E api wa))) | Inr u \<Rightarrow> Some u)"
  using assms
  by (cases "resolveReplica E api wa"; cases "fst (resolveReplica E api wa)";
      simp add: initializeSession_try_def setReplicaUuid_def)+


lemma initializeSession_fails_with:
  assumes "\<not> truthy_str (replicaUuid (ui w))" and "fst (initializeSession_try E api w) = Inl d"
  shows "fst (initializeSession E api c w) = Inl (ErrorInst initializeSession_error)
         \<and> last (console (snd (initializeSession E api c w)))
             = ConsoleError ''Error initializing session:'' d"
  using assms by (simp add: initializeSession_uncached)





subsection \<open>Guards of \<open>handleSubmit\<close>\<close>

text \<open>\<open>!inputValue.trim()\<close> holds exactly for an input of white space only.\<close>

lemma trim_blank: "trim s = [] \<longleftrightarrow> list_all is_ws s"
proof -
  have "trim s = [] \<longleftrightarrow> dropWhile is_ws (rev (dropWhile is_ws s)) = []"
    by (simp add: trim_def)
  also have "\<dots> \<longleftrightarrow> (\<forall>c \<in> set (dropWhile is_ws s). is_ws c)"
    by simp
  also have "\<dots> \<longleftrightarrow> dropWhile is_ws s = []"
  proof
    assume a: "\<forall>c \<in> set (dropWhile is_ws s). is_ws c"
    show "dropWhile is_ws s = []"
    proof (cases "dropWhile is_ws s")
      case Nil then show ?thesis .
    next
      case (Cons x xs)
      then have "\<not> is_ws x" using hd_dropWhile [of is_ws s] by simp
      moreover have "is_ws x" using a Cons by simp
      ultimately show ?thesis by simp
    qed
  qed (auto dest: set_dropWhileD)
  also have "\<dots> \<longleftrightarrow> list_all is_ws s"
    by (simp add: list_all_iff)
  finally show ?thesis .
qed

lemma accepted_Hello: "accepted (typed ''key-1'' ''Hello'')"
  by code_simp

section \<open>The claims\<close>

subsection \<open>C1: the transcript after a failed exchange\<close>

text \<open>
  C1 says that after any failed exchange the transcript is the one before the
  submission plus the user message, also when provisioning fails. In the source the
  placeholder is appended only after \<open>initializeSession\<close> has returned, and the
  \<open>catch\<close> block removes the last message unconditionally (its comment: ``Remove the
  assistant message if it failed''). On the service whose agent listing fails, the
  submission of \<open>Hello\<close> with credential \<open>key-1\<close> on an empty transcript is
  accepted, provisioning fails, and the transcript ends empty: the user message itself
  has been removed.
\<close>

theorem C1_provisioning_failure_removes_user_message:
  "accepted (typed ''key-1'' ''Hello'')
   \<and> messages (ui (typed ''key-1'' ''Hello'')) = []
   \<and> map fst (calls (handleSubmit demoEnv listFailsAPI (typed ''key-1'' ''Hello''))) =
       [GetV1Users \<lparr>X_ORGANIZATION_SECRET = ''key-1'', X_USER_ID = None\<rparr> ''sample-user'',
        GetV1Replicas \<lparr>X_ORGANIZATION_SECRET = ''key-1'', X_USER_ID = Some ''sample-user''\<rparr>]
   \<and> error (ui (handleSubmit demoEnv listFailsAPI (typed ''key-1'' ''Hello'')))
       = JStr initializeSession_error
   \<and> messages (ui (handleSubmit demoEnv listFailsAPI (typed ''key-1'' ''Hello''))) = []
   \<and> messages (ui (handleSubmit demoEnv listFailsAPI (typed ''key-1'' ''Hello'')))
       \<noteq> messages (ui (typed ''key-1'' ''Hello''))
           @ [\<lparr>role = User, content = ''Hello'', name = None\<rparr>]"
  by code_simp

subsection \<open>C2: extraction of the error message\<close>

text \<open>
  C2, as stated, fails for an unrecognised payload: the thrown object
  \<open>{response: {status: 500}}\<close> has no \<open>error\<close>, no \<open>message\<close> and no
  \<open>response.data\<close>, and the displayed message is the fixed default, which does not
  contain \<open>500\<close>.
\<close>

theorem C2_counterexample:
  "extractErrorMessage demoEnv (Thrown (JObj [(''response'', JObj [(''status'', JNum 500)])]))
     = JStr default_errorMessage
   \<and> js_toString (JNum 500) = ''500''
   \<and> \<not> sublist ''500'' default_errorMessage"
  by code_simp

text \<open>
  C2, amended. For a thrown object: a truthy \<open>error.message\<close> is displayed; without
  an \<open>error\<close> field a truthy \<open>message\<close> is displayed; when neither \<open>error\<close>
  nor \<open>message\<close> is truthy and \<open>response.data\<close> is truthy, not a string, and has
  neither a truthy \<open>error.message\<close> nor a truthy \<open>message\<close>, the displayed message
  is \<open>API Error (<status>): <JSON of data>\<close>, which contains the status; when
  \<open>response.data\<close> is not truthy either, the fixed default message is displayed.
\<close>

theorem C2_error_message_extraction:
  "(truthy mX \<and> get_prop (get_prop (JObj pX) ''error'') ''message'' = mX
      \<longrightarrow> extractErrorMessage E (Thrown (JObj pX)) = mX)
   \<and> (truthy mY \<and> get_prop (JObj pY) ''error'' = JUndefined \<and> get_prop (JObj pY) ''message'' = mY
      \<longrightarrow> extractErrorMessage E (Thrown (JObj pY)) = mY)
   \<and> (\<not> truthy (get_prop (JObj pR) ''error'') \<and> \<not> truthy (get_prop (JObj pR) ''message'')
       \<and> get_prop (get_prop (JObj pR) ''response'') ''data'' = d \<and> truthy d
       \<and> \<not> truthy (get_prop (get_prop d ''error'') ''message'')
       \<and> \<not> truthy (get_prop d ''message'') \<and> \<not> isString d
       \<and> get_prop (get_prop (JObj pR) ''response'') ''status'' = st
      \<longrightarrow> extractErrorMessage E (Thrown (JObj pR))
            = JStr (''API Error ('' @ js_toString st @ ''): '' @ JSON_stringify E d)
          \<and> sublist (js_toString st)
               (''API Error ('' @ js_toString st @ ''): '' @ JSON_stringify E d))
   \<and> (\<not> truthy (get_prop (JObj pU) ''error'') \<and> \<not> truthy (get_prop (JObj pU) ''message'')
       \<and> \<not> truthy (get_prop (get_prop (JObj pU) ''response'') ''data'')
      \<longrightarrow> extractErrorMessage E (Thrown (JObj pU)) = JStr default_errorMessage)"
proof (intro conjI impI)
  assume "truthy mX \<and> get_prop (get_prop (JObj pX) ''error'') ''message'' = mX"
  then show "extractErrorMessage E (Thrown (JObj pX)) = mX"
    by (simp add: extractErrorMessage_def extract_errorObj_def)
next
  assume "truthy mY \<and> get_prop (JObj pY) ''error'' = JUndefined \<and> get_prop (JObj pY) ''message'' = mY"
  then show "extractErrorMessage E (Thrown (JObj pY)) = mY"
    by (simp add: extractErrorMessage_def extract_errorObj_def)
next
  assume a: "\<not> truthy (get_prop (JObj pR) ''error'') \<and> \<not> truthy (get_prop (JObj pR) ''message'')
       \<and> get_prop (get_prop (JObj pR) ''response'') ''data'' = d \<and> truthy d
       \<and> \<not> truthy (get_prop (get_prop d ''error'') ''message'')
       \<and> \<not> truthy (get_prop d ''message'') \<and> \<not> isString d
       \<and> get_prop (get_prop (JObj pR) ''response'') ''status'' = st"
  have nomsg: "\<not> truthy (get_prop (get_prop (JObj pR) ''error'') ''message'')"
    using a by (cases "get_prop (JObj pR) ''error''") simp_all
  show "extractErrorMessage E (Thrown (JObj pR))
            = JStr (''API Error ('' @ js_toString st @ ''): '' @ JSON_stringify E d)"
    using a nomsg
    by (cases d) (simp_all add: extractErrorMessage_def extract_errorObj_def extract_respData_def)
  show "sublist (js_toString st) (''API Error ('' @ js_toString st @ ''): '' @ JSON_stringify E d)"
    by (rule sublist_appendI)
next
  assume a: "\<not> truthy (get_prop (JObj pU) ''error'') \<and> \<not> truthy (get_prop (JObj pU) ''message'')
       \<and> \<not> truthy (get_prop (get_prop (JObj pU) ''response'') ''data'')"
  have nomsg: "\<not> truthy (get_prop (get_prop (JObj pU) ''error'') ''message'')"
    using a by (cases "get_prop (JObj pU) ''error''") simp_all
  show "extractErrorMessage E (Thrown (JObj pU)) = JStr default_errorMessage"
    using a nomsg by (simp add: extractErrorMessage_def extract_errorObj_def)
qed

text \<open>
  C2, amended, at the payloads \<open>{error: {message: "X"}}\<close>, \<open>{message: "Y"}\<close>,
  \<open>{response: {status: 500, data: {}}}\<close> and \<open>{response: {status: 500}}\<close>.
\<close>

theorem C2_error_message_extraction_witness:
  "extractErrorMessage demoEnv (Thrown (JObj [(''error'', JObj [(''message'', JStr ''X'')])])) = JStr ''X''
   \<and> extractErrorMessage demoEnv (Thrown (JObj [(''message'', JStr ''Y'')])) = JStr ''Y''
   \<and> extractErrorMessage demoEnv
        (Thrown (JObj [(''response'', JObj [(''status'', JNum 500), (''data'', JObj [])])]))
       = JStr ''API Error (500): {}''
   \<and> sublist ''500'' ''API Error (500): {}''
   \<and> extractErrorMessage demoEnv (Thrown (JObj [(''response'', JObj [(''status'', JNum 500)])]))
       = JStr default_errorMessage"
proof -
  have d: "js_toString (JNum 500) = ''500''" by code_simp
  show ?thesis
    using C2_error_message_extraction
      [of "JStr ''X''" "[(''error'', JObj [(''message'', JStr ''X'')])]" demoEnv
          "JStr ''Y''" "[(''message'', JStr ''Y'')]"
          "[(''response'', JObj [(''status'', JNum 500), (''data'', JObj [])])]"
          "JObj []" "JNum 500"
          "[(''response'', JObj [(''status'', JNum 500)])]"]
    by (simp add: d demoEnv_def stringifyEmpty_def del: js_toString.simps)
qed

subsection \<open>C3: idempotence of the Provisioner\<close>

text \<open>
  C3, as stated, fails when the service answers with an empty identifier: on the
  service whose created agent has the \<open>uuid\<close> \<open>""\<close> the first invocation returns
  normally, the test \<open>if (replicaUuid)\<close> of the next invocation with the same
  credential finds nothing cached, and the lookup, the listing and the agent creation
  are called again, two agent creations in all.
\<close>

theorem C3_counterexample:
  "fst (initializeSession demoEnv emptyUuidAPI (userClient demoEnv (typed ''key-1'' ''Hello''))
          (typed ''key-1'' ''Hello'')) = Inr []
   \<and> localApiKey (ui emptyUuidWorld) = localApiKey (ui (typed ''key-1'' ''Hello''))
   \<and> fst (initializeSession demoEnv emptyUuidAPI (userClient demoEnv emptyUuidWorld)
            emptyUuidWorld) = Inr []
   \<and> map fst (newCalls emptyUuidWorld
        (snd (initializeSession demoEnv emptyUuidAPI (userClient demoEnv emptyUuidWorld)
                emptyUuidWorld))) =
       [GetV1Users \<lparr>X_ORGANIZATION_SECRET = ''key-1'', X_USER_ID = None\<rparr> ''sample-user'',
        GetV1Replicas \<lparr>X_ORGANIZATION_SECRET = ''key-1'', X_USER_ID = Some ''sample-user''\<rparr>,
        PostV1Replicas \<lparr>X_ORGANIZATION_SECRET = ''key-1'', X_USER_ID = Some ''sample-user''\<rparr>
          ''2025-03-25'' (sampleReplicaBody demoEnv)]
   \<and> countCalls isReplicaCreation (newCalls (typed ''key-1'' ''Hello'')
        (snd (initializeSession demoEnv emptyUuidAPI (userClient demoEnv emptyUuidWorld)
                emptyUuidWorld))) = 2"
  by code_simp

text \<open>
  C3, amended. Let an invocation of \<open>initializeSession\<close> succeed with a non-empty
  identifier \<open>u\<close>. Then \<open>u\<close> is cached, the credential is unchanged, and every
  later invocation in a world whose cache still holds \<open>u\<close> returns \<open>u\<close> and leaves
  the world as it is: it makes no network call. The two invocations together make at
  most one user-creation and at most one agent-creation call.
\<close>

theorem C3_provisioner_idempotent:
  assumes "initializeSession E api c w = (Inr u, w1)" and "u \<noteq> []"
  shows "replicaUuid (ui w1) = Some u
         \<and> localApiKey (ui w1) = localApiKey (ui w)
         \<and> initializeSession E api c2 w1 = (Inr u, w1)
         \<and> newCalls w1 (snd (initializeSession E api c2 w1)) = []
         \<and> (replicaUuid (ui w2) = Some u \<longrightarrow> initializeSession E api c3 w2 = (Inr u, w2))
         \<and> countCalls isUserCreation (newCalls w (snd (initializeSession E api c2 w1))) \<le> 1
         \<and> countCalls isReplicaCreation (newCalls w (snd (initializeSession E api c2 w1))) \<le> 1"
proof -
  note f = initializeSession_frame [OF assms(1)]
  from f have cached: "replicaUuid (ui w1) = Some u" by simp
  have key: "localApiKey (ui w1) = localApiKey (ui w)"
    using assms(1) by (rule initializeSession_ui_fields(5))
  have again: "initializeSession E api c2 w1 = (Inr u, w1)"
    using cached assms(2) by (rule initializeSession_cached)
  have any: "replicaUuid (ui w2) = Some u \<longrightarrow> initializeSession E api c3 w2 = (Inr u, w2)"
    using assms(2) by (simp add: initializeSession_cached)
  from f have cnt: "countCalls isUserCreation (newCalls w w1) \<le> 1"
      "countCalls isReplicaCreation (newCalls w w1) \<le> 1" by blast+
  show ?thesis using cached key again any cnt by (simp add: newCalls_self)
qed

text \<open>
  C3, amended, on the service that lists no sample agent: the first invocation creates the agent
  \<open>r-2\<close> with one creation call, the second returns \<open>r-2\<close> without any call, and
  so does a later one after the user has typed again.
\<close>

theorem C3_provisioner_idempotent_witness:
  "initializeSession demoEnv noReplicaAPI (userClient demoEnv (typed ''key-1'' ''Hello''))
      (typed ''key-1'' ''Hello'') = (Inr ''r-2'', provisionedWorld)
   \<and> replicaUuid (ui provisionedWorld) = Some ''r-2''
   \<and> initializeSession demoEnv noReplicaAPI (userClient demoEnv provisionedWorld) provisionedWorld
       = (Inr ''r-2'', provisionedWorld)
   \<and> newCalls provisionedWorld
        (snd (initializeSession demoEnv noReplicaAPI (userClient demoEnv provisionedWorld)
                provisionedWorld)) = []
   \<and> initializeSession demoEnv noReplicaAPI (userClient demoEnv provisionedWorld)
        (handleInputChange ''Next'' provisionedWorld)
       = (Inr ''r-2'', handleInputChange ''Next'' provisionedWorld)
   \<and> countCalls isUserCreation (newCalls (typed ''key-1'' ''Hello'')
        (snd (initializeSession demoEnv noReplicaAPI (userClient demoEnv provisionedWorld)
                provisionedWorld))) \<le> 1
   \<and> countCalls isReplicaCreation (newCalls (typed ''key-1'' ''Hello'')
        (snd (initializeSession demoEnv noReplicaAPI (userClient demoEnv provisionedWorld)
                provisionedWorld))) \<le> 1
   \<and> countCalls isReplicaCreation (newCalls (typed ''key-1'' ''Hello'') provisionedWorld) = 1"
proof -
  have r: "fst (initializeSession demoEnv noReplicaAPI (userClient demoEnv (typed ''key-1'' ''Hello''))
                 (typed ''key-1'' ''Hello'')) = Inr ''r-2''"
    by code_simp
  have h: "initializeSession demoEnv noReplicaAPI (userClient demoEnv (typed ''key-1'' ''Hello''))
      (typed ''key-1'' ''Hello'') = (Inr ''r-2'', provisionedWorld)"
    using r by (simp add: provisionedWorld_def prod_eq_iff)
  have n: "replicaUuid (ui (handleInputChange ''Next'' provisionedWorld)) = Some ''r-2''"
    by code_simp
  have k: "countCalls isReplicaCreation (newCalls (typed ''key-1'' ''Hello'') provisionedWorld) = 1"
    by code_simp
  have ne: "''r-2'' \<noteq> []" by simp
  note T = C3_provisioner_idempotent [OF h ne, of "userClient demoEnv provisionedWorld"
            "handleInputChange ''Next'' provisionedWorld" "userClient demoEnv provisionedWorld"]
  from T have again:
    "initializeSession demoEnv noReplicaAPI (userClient demoEnv provisionedWorld) provisionedWorld
       = (Inr ''r-2'', provisionedWorld)" by blast
  from T n have next_one:
    "initializeSession demoEnv noReplicaAPI (userClient demoEnv provisionedWorld)
        (handleInputChange ''Next'' provisionedWorld)
       = (Inr ''r-2'', handleInputChange ''Next'' provisionedWorld)" by blast
  from T have cached: "replicaUuid (ui provisionedWorld) = Some ''r-2''" by blast
  from T have cnt:
    "countCalls isUserCreation (newCalls (typed ''key-1'' ''Hello'')
        (snd (initializeSession demoEnv noReplicaAPI (userClient demoEnv provisionedWorld)
                provisionedWorld))) \<le> 1"
    "countCalls isReplicaCreation (newCalls (typed ''key-1'' ''Hello'')
        (snd (initializeSession demoEnv noReplicaAPI (userClient demoEnv provisionedWorld)
                provisionedWorld))) \<le> 1"
    "newCalls provisionedWorld
        (snd (initializeSession demoEnv noReplicaAPI (userClient demoEnv provisionedWorld)
                provisionedWorld)) = []"
    by blast+
  show ?thesis
    by (intro conjI h cached again next_one cnt k)
qed

subsection \<open>C4: invalidation of the cached identifier\<close>

text \<open>
  C4 says that every change of the credential resets the cached identifier.
  \<open>handleApiKeyChange\<close> does so (``Reset replica UUID when changing API key''); the
  effect that follows the prop \<open>apiKey\<close> sets \<open>localApiKey\<close> and leaves
  \<open>replicaUuid\<close> alone. After a successful exchange under \<open>key-1\<close>, which caches
  \<open>r-1\<close>, the prop changes to \<open>key-2\<close>: the credential is \<open>key-2\<close>, the cache
  still holds \<open>r-1\<close>, and the next exchange makes the completion call only, with the
  new credential and the old identifier. The same change through the configuration
  field empties the cache.
\<close>

theorem C4_prop_credential_keeps_cached_replica:
  "replicaUuid (ui (handleSubmit demoEnv happyAPI (typed ''key-1'' ''Hello''))) = Some ''r-1''
   \<and> localApiKey (ui (apiKeyEffect (Some ''key-2'')
         (handleSubmit demoEnv happyAPI (typed ''key-1'' ''Hello'')))) = ''key-2''
   \<and> replicaUuid (ui (apiKeyEffect (Some ''key-2'')
         (handleSubmit demoEnv happyAPI (typed ''key-1'' ''Hello'')))) = Some ''r-1''
   \<and> replicaUuid (ui (handleApiKeyChange ''key-2''
         (handleSubmit demoEnv happyAPI (typed ''key-1'' ''Hello'')))) = None
   \<and> map fst (newCalls
         (apiKeyEffect (Some ''key-2'') (handleSubmit demoEnv happyAPI (typed ''key-1'' ''Hello'')))
         (handleSubmit demoEnv happyAPI (handleInputChange ''Again''
            (apiKeyEffect (Some ''key-2'')
               (handleSubmit demoEnv happyAPI (typed ''key-1'' ''Hello''))))))
       = [PostV1ReplicasChatCompletions
            \<lparr>X_ORGANIZATION_SECRET = ''key-2'', X_USER_ID = Some ''sample-user''\<rparr>
            ''r-1'' ''2025-03-25''
            \<lparr>chat_content = ''Again'', source = ''web'', skip_chat_history = False\<rparr>]"
  by code_simp

subsection \<open>C5: rejected submissions\<close>

text \<open>
  C5, as stated, fails where its two cases overlap: with an empty input and no
  credential the first guard returns, and no validation message is set.
\<close>

theorem C5_counterexample:
  "localApiKey (ui (worldOf (initialState None))) = []
   \<and> inputValue (ui (worldOf (initialState None))) = []
   \<and> error (ui (handleSubmit demoEnv happyAPI (worldOf (initialState None)))) = JNull"
  by code_simp

text \<open>
  C5, amended. A submission whose input is empty or white space only changes nothing at
  all; a submission without a credential appends no message and makes no network call;
  and a submission with a non-blank input and no credential sets the validation message
  \<open>Please provide an API key\<close>.
\<close>

theorem C5_rejected_submissions:
  "(list_all is_ws (inputValue (ui wA)) \<longrightarrow> handleSubmit E api wA = wA)
   \<and> (localApiKey (ui wB) = [] \<longrightarrow>
        messages (ui (handleSubmit E api wB)) = messages (ui wB)
        \<and> calls (handleSubmit E api wB) = calls wB
        \<and> remote (handleSubmit E api wB) = remote wB)
   \<and> (\<not> list_all is_ws (inputValue (ui wC)) \<and> localApiKey (ui wC) = [] \<longrightarrow>
        error (ui (handleSubmit E api wC)) = JStr ''Please provide an API key'')"
  by (simp add: handleSubmit_def trim_blank setError_def)

text \<open>
  C5, amended, at an input of a space, a tab and a line feed, and at the input
  \<open>Hello\<close> without a credential.
\<close>

theorem C5_rejected_submissions_witness:
  "list_all is_ws (inputValue (ui (typed ''key-1'' [CHR 0x20, CHR 0x09, CHR 0x0A])))
   \<and> handleSubmit demoEnv happyAPI (typed ''key-1'' [CHR 0x20, CHR 0x09, CHR 0x0A])
       = typed ''key-1'' [CHR 0x20, CHR 0x09, CHR 0x0A]
   \<and> \<not> list_all is_ws (inputValue (ui (typed [] ''Hello'')))
   \<and> localApiKey (ui (typed [] ''Hello'')) = []
   \<and> messages (ui (handleSubmit demoEnv happyAPI (typed [] ''Hello''))) = []
   \<and> calls (handleSubmit demoEnv happyAPI (typed [] ''Hello'')) = []
   \<and> error (ui (handleSubmit demoEnv happyAPI (typed [] ''Hello''))) = JStr ''Please provide an API key''"
proof -
  have a: "list_all is_ws (inputValue (ui (typed ''key-1'' [CHR 0x20, CHR 0x09, CHR 0x0A])))"
    by code_simp
  have b: "\<not> list_all is_ws (inputValue (ui (typed [] ''Hello'')))"
          "localApiKey (ui (typed [] ''Hello'')) = []"
          "messages (ui (typed [] ''Hello'')) = []"
          "calls (typed [] ''Hello'') = []"
    by code_simp+
  show ?thesis
    using C5_rejected_submissions [of "typed ''key-1'' [CHR 0x20, CHR 0x09, CHR 0x0A]"
              demoEnv happyAPI "typed [] ''Hello''" "typed [] ''Hello''"] a b
    by simp
qed

subsection \<open>C6: the order of the steps of an exchange\<close>

text \<open>
  C6, as stated, fails: \<open>handleSubmit\<close> awaits \<open>initializeSession\<close> before it
  appends the placeholder and sets \<open>isLoading\<close>. At the first provisioning call of
  the exchange of \<open>Hello\<close> the transcript holds the user message only and
  \<open>isLoading\<close> is false.
\<close>

theorem C6_counterexample:
  "accepted (typed ''key-1'' ''Hello'')
   \<and> fst (hd (newCalls (typed ''key-1'' ''Hello'')
               (handleSubmit demoEnv happyAPI (typed ''key-1'' ''Hello''))))
       = GetV1Users \<lparr>X_ORGANIZATION_SECRET = ''key-1'', X_USER_ID = None\<rparr> ''sample-user''
   \<and> messages (snd (hd (newCalls (typed ''key-1'' ''Hello'')
               (handleSubmit demoEnv happyAPI (typed ''key-1'' ''Hello'')))))
       = [\<lparr>role = User, content = ''Hello'', name = None\<rparr>]
   \<and> \<not> isLoading (snd (hd (newCalls (typed ''key-1'' ''Hello'')
               (handleSubmit demoEnv happyAPI (typed ''key-1'' ''Hello'')))))"
  by code_simp

text \<open>
  C6, amended. For every accepted submission and every network call the handler makes:
  a provisioning call sees the transcript extended by the user message only and
  \<open>isLoading\<close> as it was before the submission; the completion call sees the
  transcript extended by the user message and the empty assistant placeholder, with
  \<open>isLoading\<close> set; and no call but the last is the completion call, so all
  provisioning precedes the placeholder and the completion request.
\<close>

theorem C6_exchange_order:
  assumes "accepted w"
  shows "list_all (\<lambda>c. if isCompletion (fst c)
                        then messages (snd c) = messages (ui w) @ [userMessage w, assistantMessage]
                             \<and> isLoading (snd c)
                        else messages (snd c) = messages (ui w) @ [userMessage w]
                             \<and> isLoading (snd c) = isLoading (ui w))
           (newCalls w (handleSubmit E api w))
         \<and> list_all (\<lambda>c. \<not> isCompletion (fst c)) (butlast (newCalls w (handleSubmit E api w)))"
proof -
  have "list_all (\<lambda>c. if isCompletion (fst c)
                        then messages (snd c) = messages (ui w) @ [userMessage w, assistantMessage]
                             \<and> isLoading (snd c)
                        else messages (snd c) = messages (ui w) @ [userMessage w]
                             \<and> isLoading (snd c) = isLoading (ui w))
           (newCalls w (handleSubmit E api w))"
    using handleSubmit_snapshots(1) [OF assms, of E api]
    by (rule list.pred_mono_strong) (simp split: if_splits)
  then show ?thesis
    using handleSubmit_snapshots(2) [OF assms, of E api] by simp
qed

text \<open>
  C6, amended, on the exchange of \<open>Hello\<close> with the service on which everything
  succeeds: two provisioning calls without placeholder, then the completion call with
  it.
\<close>

theorem C6_exchange_order_witness:
  "accepted (typed ''key-1'' ''Hello'')
   \<and> map (\<lambda>c. (isCompletion (fst c), messages (snd c), isLoading (snd c)))
         (newCalls (typed ''key-1'' ''Hello'') (handleSubmit demoEnv happyAPI (typed ''key-1'' ''Hello'')))
       = [(False, [\<lparr>role = User, content = ''Hello'', name = None\<rparr>], False),
          (False, [\<lparr>role = User, content = ''Hello'', name = None\<rparr>], False),
          (True, [\<lparr>role = User, content = ''Hello'', name = None\<rparr>,
                  \<lparr>role = Assistant, content = [], name = None\<rparr>], True)]
   \<and> list_all (\<lambda>c. if isCompletion (fst c)
                     then messages (snd c) = messages (ui (typed ''key-1'' ''Hello''))
                            @ [userMessage (typed ''key-1'' ''Hello''), assistantMessage]
                          \<and> isLoading (snd c)
                     else messages (snd c) = messages (ui (typed ''key-1'' ''Hello''))
                            @ [userMessage (typed ''key-1'' ''Hello'')]
                          \<and> isLoading (snd c) = isLoading (ui (typed ''key-1'' ''Hello'')))
        (newCalls (typed ''key-1'' ''Hello'') (handleSubmit demoEnv happyAPI (typed ''key-1'' ''Hello'')))
   \<and> list_all (\<lambda>c. \<not> isCompletion (fst c))
        (butlast (newCalls (typed ''key-1'' ''Hello'')
                    (handleSubmit demoEnv happyAPI (typed ''key-1'' ''Hello''))))"
proof -
  have m: "map (\<lambda>c. (isCompletion (fst c), messages (snd c), isLoading (snd c)))
         (newCalls (typed ''key-1'' ''Hello'') (handleSubmit demoEnv happyAPI (typed ''key-1'' ''Hello'')))
       = [(False, [\<lparr>role = User, content = ''Hello'', name = None\<rparr>], False),
          (False, [\<lparr>role = User, content = ''Hello'', name = None\<rparr>], False),
          (True, [\<lparr>role = User, content = ''Hello'', name = None\<rparr>,
                  \<lparr>role = Assistant, content = [], name = None\<rparr>], True)]"
    by code_simp
  show ?thesis
    using C6_exchange_order [OF accepted_Hello, of demoEnv happyAPI] accepted_Hello m by simp
qed

subsection \<open>C7: the error message of a failed provisioning\<close>

text \<open>
  C7, as stated, fails for a failure of the user lookup: the inner \<open>try/catch\<close>
  absorbs it, the user is created, and when the remaining calls succeed the Provisioner
  returns an identifier and no error is displayed.
\<close>

theorem C7_counterexample:
  "fst (getV1Users lookupFailsAPI
          (orgOnlyClient (submitAccepted (typed ''key-1'' ''Hello''))) ''sample-user''
          (remote (submitAccepted (typed ''key-1'' ''Hello'')))) = Inl serverError
   \<and> fst (initializeSession demoEnv lookupFailsAPI
            (submitClient demoEnv (typed ''key-1'' ''Hello''))
            (submitAccepted (typed ''key-1'' ''Hello''))) = Inr ''r-1''
   \<and> error (ui (handleSubmit demoEnv lookupFailsAPI (typed ''key-1'' ''Hello''))) = JNull
   \<and> messages (ui (handleSubmit demoEnv lookupFailsAPI (typed ''key-1'' ''Hello'')))
       = [\<lparr>role = User, content = ''Hello'', name = None\<rparr>,
          \<lparr>role = Assistant, content = ''Hi there'', name = None\<rparr>]"
  by code_simp

text \<open>
  C7, amended. Whenever \<open>initializeSession\<close> throws, it throws the one \<open>Error\<close>
  with the fixed message. On an uncached run it does so when the user creation fails
  (after a failed lookup), when the agent listing fails, and when the agent creation
  fails (no usable sample agent being listed); each time the thrown detail is the last
  entry written to the console. When \<open>initializeSession\<close> throws inside an accepted
  submission, the message displayed is the fixed one.
\<close>

theorem C7_provisioning_failure_message:
  "(initializeSession E api c w = (Inl e, w') \<longrightarrow> e = ErrorInst initializeSession_error)
   \<and> (\<not> truthy_str (replicaUuid (ui wU))
       \<and> getV1Users apiU (orgOnlyClient wU) (SAMPLE_USER_ID E) (remote wU) = (Inl d0, ra)
       \<and> postV1Users apiU (orgOnlyClient wU) (API_VERSION E) (sampleUserBody E) ra = (Inl dU, rb)
      \<longrightarrow> fst (initializeSession E apiU c wU) = Inl (ErrorInst initializeSession_error)
          \<and> last (console (snd (initializeSession E apiU c wU)))
              = ConsoleError ''Error initializing session:'' dU)
   \<and> (\<not> truthy_str (replicaUuid (ui wL)) \<and> ensureUser E apiL wL = (Inr (), wa)
       \<and> getV1Replicas apiL (userClient E wL) (remote wa) = (Inl dL, rl)
      \<longrightarrow> fst (initializeSession E apiL c wL) = Inl (ErrorInst initializeSession_error)
          \<and> last (console (snd (initializeSession E apiL c wL)))
              = ConsoleError ''Error initializing session:'' dL)
   \<and> (\<not> truthy_str (replicaUuid (ui wC)) \<and> ensureUser E apiC wC = (Inr (), wb)
       \<and> getV1Replicas apiC (userClient E wC) (remote wb) = (Inr rs, rm)
       \<and> \<not> truthy_str (findSampleReplica E rs)
       \<and> postV1Replicas apiC (userClient E wC) (API_VERSION E) (sampleReplicaBody E) rm = (Inl dC, rn)
      \<longrightarrow> fst (initializeSession E apiC c wC) = Inl (ErrorInst initializeSession_error)
          \<and> last (console (snd (initializeSession E apiC c wC)))
              = ConsoleError ''Error initializing session:'' dC)
   \<and> (accepted wS
       \<and> fst (initializeSession E apiS (submitClient E wS) (submitAccepted wS)) = Inl eS
      \<longrightarrow> error (ui (handleSubmit E apiS wS)) = JStr initializeSession_error)"
proof -
  have c1: "initializeSession E api c w = (Inl e, w') \<longrightarrow> e = ErrorInst initializeSession_error"
  proof
    assume "initializeSession E api c w = (Inl e, w')"
    from initializeSession_frame [OF this] show "e = ErrorInst initializeSession_error" by simp
  qed
  have c2: "\<not> truthy_str (replicaUuid (ui wU))
       \<and> getV1Users apiU (orgOnlyClient wU) (SAMPLE_USER_ID E) (remote wU) = (Inl d0, ra)
       \<and> postV1Users apiU (orgOnlyClient wU) (API_VERSION E) (sampleUserBody E) ra = (Inl dU, rb)
      \<longrightarrow> fst (initializeSession E apiU c wU) = Inl (ErrorInst initializeSession_error)
          \<and> last (console (snd (initializeSession E apiU c wU)))
              = ConsoleError ''Error initializing session:'' dU"
  proof
    assume a: "\<not> truthy_str (replicaUuid (ui wU))
       \<and> getV1Users apiU (orgOnlyClient wU) (SAMPLE_USER_ID E) (remote wU) = (Inl d0, ra)
       \<and> postV1Users apiU (orgOnlyClient wU) (API_VERSION E) (sampleUserBody E) ra = (Inl dU, rb)"
    then have "fst (ensureUser E apiU wU) = Inl dU"
      using ensureUser_lookup_fails(1) [of apiU wU E d0 ra "Inl dU" rb] by simp
    then have "fst (initializeSession_try E apiU wU) = Inl dU"
      by (simp add: initializeSession_try_user_fails)
    with a show "fst (initializeSession E apiU c wU) = Inl (ErrorInst initializeSession_error)
          \<and> last (console (snd (initializeSession E apiU c wU)))
              = ConsoleError ''Error initializing session:'' dU"
      by (simp add: initializeSession_fails_with)
  qed
  have c3: "\<not> truthy_str (replicaUuid (ui wL)) \<and> ensureUser E apiL wL = (Inr (), wa)
       \<and> getV1Replicas apiL (userClient E wL) (remote wa) = (Inl dL, rl)
      \<longrightarrow> fst (initializeSession E apiL c wL) = Inl (ErrorInst initializeSession_error)
          \<and> last (console (snd (initializeSession E apiL c wL)))
              = ConsoleError ''Error initializing session:'' dL"
  proof
    assume a: "\<not> truthy_str (replicaUuid (ui wL)) \<and> ensureUser E apiL wL = (Inr (), wa)
       \<and> getV1Replicas apiL (userClient E wL) (remote wa) = (Inl dL, rl)"
    then have u: "userClient E wa = userClient E wL"
      using userClient_ensureUser [of E apiL wL "Inr ()" wa] by simp
    have "fst (resolveReplica E apiL wa) = Inl dL"
      using a u by (simp add: resolveReplica_list_fails)
    then have "fst (initializeSession_try E apiL wL) = Inl dL"
      using a by (simp add: initializeSession_try_user_ok(1))
    with a show "fst (initializeSession E apiL c wL) = Inl (ErrorInst initializeSession_error)
          \<and> last (console (snd (initializeSession E apiL c wL)))
              = ConsoleError ''Error initializing session:'' dL"
      by (simp add: initializeSession_fails_with)
  qed
  have c4: "\<not> truthy_str (replicaUuid (ui wC)) \<and> ensureUser E apiC wC = (Inr (), wb)
       \<and> getV1Replicas apiC (userClient E wC) (remote wb) = (Inr rs, rm)
       \<and> \<not> truthy_str (findSampleReplica E rs)
       \<and> postV1Replicas apiC (userClient E wC) (API_VERSION E) (sampleReplicaBody E) rm = (Inl dC, rn)
      \<longrightarrow> fst (initializeSession E apiC c wC) = Inl (ErrorInst initializeSession_error)
          \<and> last (console (snd (initializeSession E apiC c wC)))
              = ConsoleError ''Error initializing session:'' dC"
  proof
    assume a: "\<not> truthy_str (replicaUuid (ui wC)) \<and> ensureUser E apiC wC = (Inr (), wb)
       \<and> getV1Replicas apiC (userClient E wC) (remote wb) = (Inr rs, rm)
       \<and> \<not> truthy_str (findSampleReplica E rs)
       \<and> postV1Replicas apiC (userClient E wC) (API_VERSION E) (sampleReplicaBody E) rm = (Inl dC, rn)"
    then have u: "userClient E wb = userClient E wC"
      using userClient_ensureUser [of E apiC wC "Inr ()" wb] by simp
    have "fst (resolveReplica E apiC wb) = Inl dC"
      using a u resolveReplica_creates(1) [of apiC E wb rs rm "Inl dC" rn] by simp
    then have "fst (initializeSession_try E apiC wC) = Inl dC"
      using a by (simp add: initializeSession_try_user_ok(1))
    with a show "fst (initializeSession E apiC c wC) = Inl (ErrorInst initializeSession_error)
          \<and> last (console (snd (initializeSession E apiC c wC)))
              = ConsoleError ''Error initializing session:'' dC"
      by (simp add: initializeSession_fails_with)
  qed
  have c5: "accepted wS
       \<and> fst (initializeSession E apiS (submitClient E wS) (submitAccepted wS)) = Inl eS
      \<longrightarrow> error (ui (handleSubmit E apiS wS)) = JStr initializeSession_error"
  proof
    assume a: "accepted wS
       \<and> fst (initializeSession E apiS (submitClient E wS) (submitAccepted wS)) = Inl eS"
    obtain w4 where i: "initializeSession E apiS (submitClient E wS) (submitAccepted wS) = (Inl eS, w4)"
      using a by (cases "initializeSession E apiS (submitClient E wS) (submitAccepted wS)") simp
    from initializeSession_frame [OF i] have e: "eS = ErrorInst initializeSession_error" by simp
    have "handleSubmit E apiS wS = handleSubmit_catch E eS w4"
      using a i by (simp add: handleSubmit_init_failure)
    then show "error (ui (handleSubmit E apiS wS)) = JStr initializeSession_error"
      by (simp add: handleSubmit_catch_simps e extractErrorMessage_def)
  qed
  show ?thesis by (intro conjI c1 c2 c3 c4 c5)
qed

text \<open>
  C7, amended, on the services whose user creation, agent listing and agent creation
  fail with \<open>serverError\<close>.
\<close>

theorem C7_provisioning_failure_message_witness:
  "fst (initializeSession demoEnv createUserFailsAPI (userClient demoEnv (typed ''key-1'' ''Hello''))
          (typed ''key-1'' ''Hello'')) = Inl (ErrorInst initializeSession_error)
   \<and> last (console (snd (initializeSession demoEnv createUserFailsAPI
          (userClient demoEnv (typed ''key-1'' ''Hello'')) (typed ''key-1'' ''Hello''))))
       = ConsoleError ''Error initializing session:'' serverError
   \<and> fst (initializeSession demoEnv listFailsAPI (userClient demoEnv (typed ''key-1'' ''Hello''))
          (typed ''key-1'' ''Hello'')) = Inl (ErrorInst initializeSession_error)
   \<and> last (console (snd (initializeSession demoEnv listFailsAPI
          (userClient demoEnv (typed ''key-1'' ''Hello'')) (typed ''key-1'' ''Hello''))))
       = ConsoleError ''Error initializing session:'' serverError
   \<and> fst (initializeSession demoEnv createReplicaFailsAPI (userClient demoEnv (typed ''key-1'' ''Hello''))
          (typed ''key-1'' ''Hello'')) = Inl (ErrorInst initializeSession_error)
   \<and> last (console (snd (initializeSession demoEnv createReplicaFailsAPI
          (userClient demoEnv (typed ''key-1'' ''Hello'')) (typed ''key-1'' ''Hello''))))
       = ConsoleError ''Error initializing session:'' serverError
   \<and> error (ui (handleSubmit demoEnv listFailsAPI (typed ''key-1'' ''Hello'')))
       = JStr initializeSession_error"
proof -
  let ?w = "typed ''key-1'' ''Hello''"
  let ?c = "userClient demoEnv ?w"
  have unc: "\<not> truthy_str (replicaUuid (ui ?w))" by code_simp
  have gU: "getV1Users createUserFailsAPI (orgOnlyClient ?w) (SAMPLE_USER_ID demoEnv) (remote ?w)
              = (Inl (ErrorInst ''not found''), Suc (remote ?w))"
    by (simp add: createUserFailsAPI_def scriptedAPI_def)
  have pU: "postV1Users createUserFailsAPI (orgOnlyClient ?w) (API_VERSION demoEnv)
              (sampleUserBody demoEnv) (Suc (remote ?w)) = (Inl serverError, Suc (Suc (remote ?w)))"
    by (simp add: createUserFailsAPI_def scriptedAPI_def)
  have eL: "ensureUser demoEnv listFailsAPI ?w = (Inr (), snd (ensureUser demoEnv listFailsAPI ?w))"
    by (simp add: prod_eq_iff) code_simp
  have gL: "getV1Replicas listFailsAPI (userClient demoEnv ?w)
              (remote (snd (ensureUser demoEnv listFailsAPI ?w)))
              = (Inl serverError, Suc (remote (snd (ensureUser demoEnv listFailsAPI ?w))))"
    by (simp add: listFailsAPI_def scriptedAPI_def)
  have eC: "ensureUser demoEnv createReplicaFailsAPI ?w
              = (Inr (), snd (ensureUser demoEnv createReplicaFailsAPI ?w))"
    by (simp add: prod_eq_iff) code_simp
  have gC: "getV1Replicas createReplicaFailsAPI (userClient demoEnv ?w)
              (remote (snd (ensureUser demoEnv createReplicaFailsAPI ?w)))
              = (Inr (Some \<lparr> items = Some [otherReplica] \<rparr>),
                 Suc (remote (snd (ensureUser demoEnv createReplicaFailsAPI ?w))))"
    by (simp add: createReplicaFailsAPI_def scriptedAPI_def)
  have fC: "\<not> truthy_str (findSampleReplica demoEnv (Some \<lparr> items = Some [otherReplica] \<rparr>))"
    by code_simp
  have pC: "postV1Replicas createReplicaFailsAPI (userClient demoEnv ?w) (API_VERSION demoEnv)
              (sampleReplicaBody demoEnv)
              (Suc (remote (snd (ensureUser demoEnv createReplicaFailsAPI ?w))))
              = (Inl serverError, Suc (Suc (remote (snd (ensureUser demoEnv createReplicaFailsAPI ?w)))))"
    by (simp add: createReplicaFailsAPI_def scriptedAPI_def)
  have aS: "accepted ?w" by (rule accepted_Hello)
  have iS: "fst (initializeSession demoEnv listFailsAPI (submitClient demoEnv ?w) (submitAccepted ?w))
              = Inl (ErrorInst initializeSession_error)"
    by code_simp
  note T = C7_provisioning_failure_message
    [where E = demoEnv and c = ?c
       and api = listFailsAPI and w = ?w and e = "ErrorInst initializeSession_error"
       and w' = "snd (initializeSession demoEnv listFailsAPI ?c ?w)"
       and apiU = createUserFailsAPI and wU = ?w and ?d0.0 = "ErrorInst ''not found''"
       and ra = "Suc (remote ?w)" and dU = serverError and rb = "Suc (Suc (remote ?w))"
       and apiL = listFailsAPI and wL = ?w
       and wa = "snd (ensureUser demoEnv listFailsAPI ?w)" and dL = serverError
       and rl = "Suc (remote (snd (ensureUser demoEnv listFailsAPI ?w)))"
       and apiC = createReplicaFailsAPI and wC = ?w
       and wb = "snd (ensureUser demoEnv createReplicaFailsAPI ?w)"
       and rs = "Some \<lparr> items = Some [otherReplica] \<rparr>"
       and rm = "Suc (remote (snd (ensureUser demoEnv createReplicaFailsAPI ?w)))"
       and dC = serverError
       and rn = "Suc (Suc (remote (snd (ensureUser demoEnv createReplicaFailsAPI ?w))))"
       and apiS = listFailsAPI and wS = ?w and eS = "ErrorInst initializeSession_error"]
  from T unc gU pU have c2:
    "fst (initializeSession demoEnv createUserFailsAPI ?c ?w) = Inl (ErrorInst initializeSession_error)
     \<and> last (console (snd (initializeSession demoEnv createUserFailsAPI ?c ?w)))
         = ConsoleError ''Error initializing session:'' serverError"
    by blast
  from T unc eL gL have c3:
    "fst (initializeSession demoEnv listFailsAPI ?c ?w) = Inl (ErrorInst initializeSession_error)
     \<and> last (console (snd (initializeSession demoEnv listFailsAPI ?c ?w)))
         = ConsoleError ''Error initializing session:'' serverError"
    by blast
  from T unc eC gC fC pC have c4:
    "fst (initializeSession demoEnv createReplicaFailsAPI ?c ?w) = Inl (ErrorInst initializeSession_error)
     \<and> last (console (snd (initializeSession demoEnv createReplicaFailsAPI ?c ?w)))
         = ConsoleError ''Error initializing session:'' serverError"
    by blast
  from T aS iS have c5:
    "error (ui (handleSubmit demoEnv listFailsAPI ?w)) = JStr initializeSession_error"
    by blast
  from c2 c3 c4 c5 show ?thesis by simp
qed

subsection \<open>C8: the steps of an uncached provisioning run\<close>




subsection \<open>C9: a successful exchange\<close>

text \<open>
  C9. With a credential set, the input \<open>Hello\<close> and an empty transcript, when
  provisioning returns the agent \<open>rep\<close> and the completion returns
  \<open>Hi there\<close>: the only call after provisioning is the completion request for
  \<open>rep\<close> with content \<open>Hello\<close>, source \<open>web\<close> and \<open>skip_chat_history\<close>
  false; during that call the transcript is the user message followed by the empty
  assistant message and \<open>isLoading\<close> is true; afterwards the transcript is the user
  message followed by \<open>Hi there\<close> and \<open>isLoading\<close> is false.
\<close>

theorem C9_successful_exchange:
  assumes "inputValue (ui w) = ''Hello''" and "localApiKey (ui w) \<noteq> []" and "messages (ui w) = []"
    and "initializeSession E api (submitClient E w) (submitAccepted w) = (Inr rep, w4)"
    and "postV1ReplicasChatCompletions api (submitClient E w) rep (API_VERSION E)
           \<lparr>chat_content = ''Hello'', source = ''web'', skip_chat_history = False\<rparr> (remote w4)
         = (Inr \<lparr>completion_content = ''Hi there''\<rparr>, r')"
  shows "map fst (newCalls w4 (handleSubmit E api w)) =
           [PostV1ReplicasChatCompletions
              \<lparr>X_ORGANIZATION_SECRET = localApiKey (ui w), X_USER_ID = Some (SAMPLE_USER_ID E)\<rparr>
              rep (API_VERSION E)
              \<lparr>chat_content = ''Hello'', source = ''web'', skip_chat_history = False\<rparr>]
         \<and> map (\<lambda>c. messages (snd c)) (newCalls w4 (handleSubmit E api w)) =
             [[\<lparr>role = User, content = ''Hello'', name = None\<rparr>,
               \<lparr>role = Assistant, content = [], name = None\<rparr>]]
         \<and> map (\<lambda>c. isLoading (snd c)) (newCalls w4 (handleSubmit E api w)) = [True]
         \<and> messages (ui (handleSubmit E api w)) =
             [\<lparr>role = User, content = ''Hello'', name = None\<rparr>,
              \<lparr>role = Assistant, content = ''Hi there'', name = None\<rparr>]
         \<and> \<not> isLoading (ui (handleSubmit E api w))"
proof -
  have nb: "\<not> list_all is_ws ''Hello''" by (simp add: is_ws_def)
  have acc: "accepted w"
    using assms(1,2) nb by (simp add: accepted_def trim_blank)
  have body: "completionBody w = \<lparr>chat_content = ''Hello'', source = ''web'', skip_chat_history = False\<rparr>"
    using assms(1) by (simp add: completionBody_def userMessage_def)
  have p: "postV1ReplicasChatCompletions api (submitClient E w) rep (API_VERSION E)
             (completionBody w) (remote w4) = (Inr \<lparr>completion_content = ''Hi there''\<rparr>, r')"
    using assms(5) body by simp
  have m4: "messages (ui w4) = [\<lparr>role = User, content = ''Hello'', name = None\<rparr>]"
    using initializeSession_ui_fields(1) [OF assms(4)] assms(1,3)
    by (simp add: submitAccepted_simps userMessage_def)
  have u: "ui (handleSubmit E api w) =
           (ui w4)\<lparr>messages := messages (ui w4)
                       @ [\<lparr> role = Assistant, content = ''Hi there'', name = None \<rparr>],
                   isLoading := False\<rparr>"
    using handleSubmit_success(1) [OF acc assms(4) p] by simp
  have k: "calls (handleSubmit E api w) = calls w4 @ [(completionRequest E w rep, awaiting w4)]"
    using handleSubmit_success(2) [OF acc assms(4) p] .
  show ?thesis
    using u k m4 body
    by (simp add: newCalls_def completionRequest_def awaiting_def assistantMessage_def
                  submitClient_def)
qed

text \<open>C9 on the service on which everything succeeds, with credential \<open>key-1\<close>.\<close>

theorem C9_successful_exchange_witness:
  "inputValue (ui (typed ''key-1'' ''Hello'')) = ''Hello''
   \<and> localApiKey (ui (typed ''key-1'' ''Hello'')) = ''key-1''
   \<and> messages (ui (typed ''key-1'' ''Hello'')) = []
   \<and> fst (initializeSession demoEnv happyAPI (submitClient demoEnv (typed ''key-1'' ''Hello''))
            (submitAccepted (typed ''key-1'' ''Hello''))) = Inr ''r-1''
   \<and> map fst (newCalls
         (snd (initializeSession demoEnv happyAPI (submitClient demoEnv (typed ''key-1'' ''Hello''))
                 (submitAccepted (typed ''key-1'' ''Hello''))))
         (handleSubmit demoEnv happyAPI (typed ''key-1'' ''Hello''))) =
       [PostV1ReplicasChatCompletions
          \<lparr>X_ORGANIZATION_SECRET = ''key-1'', X_USER_ID = Some ''sample-user''\<rparr>
          ''r-1'' ''2025-03-25''
          \<lparr>chat_content = ''Hello'', source = ''web'', skip_chat_history = False\<rparr>]
   \<and> map (\<lambda>c. messages (snd c)) (newCalls
         (snd (initializeSession demoEnv happyAPI (submitClient demoEnv (typed ''key-1'' ''Hello''))
                 (submitAccepted (typed ''key-1'' ''Hello''))))
         (handleSubmit demoEnv happyAPI (typed ''key-1'' ''Hello''))) =
       [[\<lparr>role = User, content = ''Hello'', name = None\<rparr>,
         \<lparr>role = Assistant, content = [], name = None\<rparr>]]
   \<and> map (\<lambda>c. isLoading (snd c)) (newCalls
         (snd (initializeSession demoEnv happyAPI (submitClient demoEnv (typed ''key-1'' ''Hello''))
                 (submitAccepted (typed ''key-1'' ''Hello''))))
         (handleSubmit demoEnv happyAPI (typed ''key-1'' ''Hello''))) = [True]
   \<and> messages (ui (handleSubmit demoEnv happyAPI (typed ''key-1'' ''Hello''))) =
       [\<lparr>role = User, content = ''Hello'', name = None\<rparr>,
        \<lparr>role = Assistant, content = ''Hi there'', name = None\<rparr>]
   \<and> \<not> isLoading (ui (handleSubmit demoEnv happyAPI (typed ''key-1'' ''Hello'')))"
proof -
  let ?w = "typed ''key-1'' ''Hello''"
  let ?w4 = "snd (initializeSession demoEnv happyAPI (submitClient demoEnv ?w) (submitAccepted ?w))"
  have iv: "inputValue (ui ?w) = ''Hello''" by code_simp
  have key: "localApiKey (ui ?w) = ''key-1''" by code_simp
  have ms: "messages (ui ?w) = []" by code_simp
  have r: "fst (initializeSession demoEnv happyAPI (submitClient demoEnv ?w) (submitAccepted ?w))
             = Inr ''r-1''"
    by code_simp
  have i: "initializeSession demoEnv happyAPI (submitClient demoEnv ?w) (submitAccepted ?w)
             = (Inr ''r-1'', ?w4)"
    using r by (simp add: prod_eq_iff)
  have p: "postV1ReplicasChatCompletions happyAPI (submitClient demoEnv ?w) ''r-1''
             (API_VERSION demoEnv)
             \<lparr>chat_content = ''Hello'', source = ''web'', skip_chat_history = False\<rparr> (remote ?w4)
           = (Inr \<lparr>completion_content = ''Hi there''\<rparr>, Suc (remote ?w4))"
    by (simp add: happyAPI_def scriptedAPI_def)
  have k: "localApiKey (ui ?w) \<noteq> []" using key by simp
  have env: "SAMPLE_USER_ID demoEnv = ''sample-user''" "API_VERSION demoEnv = ''2025-03-25''"
    by (simp_all add: demoEnv_def)
  show ?thesis
    using C9_successful_exchange [OF iv k ms i p] iv key ms r env by simp
qed

subsection \<open>C10: the input field and the in-progress flag\<close>

text \<open>
  C10. For every accepted submission, whatever the service answers: when the handler
  has completed the input is empty and \<open>isLoading\<close> is false; and at every network
  call the handler made, the input was empty already and the transcript began with the
  old transcript followed by the user message.
\<close>

theorem C10_input_cleared_and_loading_reset:
  assumes "accepted w"
  shows "inputValue (ui (handleSubmit E api w)) = []
         \<and> \<not> isLoading (ui (handleSubmit E api w))
         \<and> list_all (\<lambda>c. inputValue (snd c) = []
                         \<and> prefix (messages (ui w) @ [userMessage w]) (messages (snd c)))
             (newCalls w (handleSubmit E api w))"
proof -
  have "list_all (\<lambda>c. inputValue (snd c) = []
                         \<and> prefix (messages (ui w) @ [userMessage w]) (messages (snd c)))
             (newCalls w (handleSubmit E api w))"
    using handleSubmit_snapshots(1) [OF assms, of E api]
    by (rule list.pred_mono_strong) (simp split: if_splits)
  then show ?thesis
    using handleSubmit_final [OF assms, of E api] by simp
qed

text \<open>
  C10 on the service whose completion call fails: the error is displayed, the input
  stays empty and \<open>isLoading\<close> is false.
\<close>

theorem C10_input_cleared_and_loading_reset_witness:
  "accepted (typed ''key-1'' ''Hello'')
   \<and> error (ui (handleSubmit demoEnv completionFailsAPI (typed ''key-1'' ''Hello'')))
       = JStr ''API Error (500): {}''
   \<and> inputValue (ui (handleSubmit demoEnv completionFailsAPI (typed ''key-1'' ''Hello''))) = []
   \<and> \<not> isLoading (ui (handleSubmit demoEnv completionFailsAPI (typed ''key-1'' ''Hello'')))
   \<and> map (\<lambda>c. inputValue (snd c))
        (newCalls (typed ''key-1'' ''Hello'')
           (handleSubmit demoEnv completionFailsAPI (typed ''key-1'' ''Hello''))) = [[], [], []]
   \<and> list_all (\<lambda>c. inputValue (snd c) = []
                    \<and> prefix (messages (ui (typed ''key-1'' ''Hello''))
                                @ [userMessage (typed ''key-1'' ''Hello'')]) (messages (snd c)))
        (newCalls (typed ''key-1'' ''Hello'')
           (handleSubmit demoEnv completionFailsAPI (typed ''key-1'' ''Hello'')))"
proof -
  have e: "error (ui (handleSubmit demoEnv completionFailsAPI (typed ''key-1'' ''Hello'')))
             = JStr ''API Error (500): {}''"
    by code_simp
  have m: "map (\<lambda>c. inputValue (snd c))
        (newCalls (typed ''key-1'' ''Hello'')
           (handleSubmit demoEnv completionFailsAPI (typed ''key-1'' ''Hello''))) = [[], [], []]"
    by code_simp
  show ?thesis
    using C10_input_cleared_and_loading_reset [OF accepted_Hello, of demoEnv completionFailsAPI]
          accepted_Hello e m
    by simp
qed

end
